theory Spec2Isabelle
  imports Main
begin

unbundle bit_operations_syntax

section \<open>The GPIO keys driver (drivers/input/keyboard/gpio\_keys.c)\<close>

subsection \<open>Constants of the input layer\<close>

text \<open>
  Event classes and key codes as the driver names them. The numbers are those of the
  kernel's input interface (linux/input.h); the board's GPIO numbers, which differ
  between boards, are kept as parameters in the record \<open>board\<close> below.
\<close>

definition EV_KEY :: nat where "EV_KEY = 1"
definition EV_ABS :: nat where "EV_ABS = 3"
definition EV_SW :: nat where "EV_SW = 5"
definition KEY_CNT :: nat where "KEY_CNT = 768"
definition SW_CNT :: nat where "SW_CNT = 16"

definition KEY_HOME :: nat where "KEY_HOME = 102"
definition KEY_VOLUMEDOWN :: nat where "KEY_VOLUMEDOWN = 114"
definition KEY_VOLUMEUP :: nat where "KEY_VOLUMEUP = 115"
definition KEY_POWER :: nat where "KEY_POWER = 116"
definition KEY_NEXTSONG :: nat where "KEY_NEXTSONG = 163"
definition KEY_PLAYPAUSE :: nat where "KEY_PLAYPAUSE = 164"
definition KEY_PREVIOUSSONG :: nat where "KEY_PREVIOUSSONG = 165"

text \<open>
  The GPIO numbers of mach/board-sec-u8500.h. \<open>HOME_KEY_CODINA_R0_5\<close> is a GPIO
  number that the driver passes to the key emulator as a key code.
\<close>

record board =
  VOL_UP_JANICE_R0_0 :: int
  VOL_DOWN_JANICE_R0_0 :: int
  HOME_KEY_JANICE_R0_0 :: int
  HOME_KEY_CODINA_R0_5 :: int

subsection \<open>Data\<close>

text \<open>
  \<open>struct gpio_keys_button\<close>: the configuration of one line. The fields \<open>type\<close> and
  \<open>value\<close> of the source are \<open>type'\<close> and \<open>value'\<close> here. \<open>wakeup\<close> is written
  by the wake-enable attribute, the other fields are never written by the driver.
\<close>

record gpio_keys_button =
  code :: nat
  gpio :: int
  active_low :: int
  type' :: nat
  wakeup :: int
  debounce_interval :: int
  can_disable :: bool
  value' :: int

text \<open>
  \<open>struct gpio_button_data\<close>: the runtime state of one line. The embedded
  \<open>timer_list\<close> is its pending expiry in jiffies (\<open>None\<close>: not pending), the embedded
  \<open>work_struct\<close> is its pending bit.
\<close>

record gpio_button_data =
  button :: gpio_keys_button
  timer :: "nat option"
  work :: bool
  timer_debounce :: int
  disabled :: bool
  key_state :: bool

text \<open>\<open>struct gpio_keys_drvdata\<close>: \<open>n_buttons\<close> is the length of \<open>data\<close>.\<close>

record gpio_keys_drvdata =
  enabled :: bool
  data :: "gpio_button_data list"

datatype error = BUG | ENOMEM | EINVAL | ERANGE

text \<open>
  The calls the driver makes into the rest of the kernel, in the order it makes them.
  \<open>Disable_irq n\<close> is \<open>disable_irq(n)\<close>, likewise \<open>Enable_irq\<close>;
  \<open>Del_timer_sync g\<close> is \<open>del_timer_sync\<close> on the timer of the line of GPIO \<open>g\<close>;
  \<open>Input_event t c v\<close> is \<open>input_event(input, t, c, v)\<close>;
  \<open>Ponkey_emulator k s\<close> is \<open>ab8500_ponkey_emulator(k, s)\<close>;
  \<open>Remap_power_key s t\<close> is \<open>abb_ponkey_remap_power_key(s, t)\<close>.
\<close>

datatype call =
    Disable_irq int
  | Enable_irq int
  | Del_timer_sync int
  | Mutex_lock
  | Mutex_unlock
  | Input_event nat nat int
  | Input_sync
  | Ponkey_emulator int int
  | Remap_power_key int int
  | Unmap_keys
  | Mdelay nat

subsection \<open>Timers and work items of the kernel\<close>

text \<open>
  Modelled from the spec: \<open>mod_timer\<close> of the kernel's one-shot timers
  (kernel/timer.c), which is not among the sources. Arming a timer overwrites any
  still-pending arm of the same timer.
\<close>

definition mod_timer :: "nat \<Rightarrow> gpio_button_data \<Rightarrow> gpio_button_data" where
  "mod_timer expires bdata = bdata\<lparr>timer := Some expires\<rparr>"

text \<open>
  Modelled from the spec: \<open>del_timer_sync\<close> of kernel/timer.c, which is not among
  the sources. Cancelling a timer synchronously leaves it not pending.
\<close>

definition del_timer_sync :: "gpio_button_data \<Rightarrow> gpio_button_data" where
  "del_timer_sync bdata = bdata\<lparr>timer := None\<rparr>"

text \<open>
  Modelled from the spec: \<open>schedule_work\<close> of the kernel's work queue
  (kernel/workqueue.c), which is not among the sources. Enqueueing a work item sets
  its pending bit; a pending item is not enqueued twice.
\<close>

definition schedule_work :: "gpio_button_data \<Rightarrow> gpio_button_data" where
  "schedule_work bdata = bdata\<lparr>work := True\<rparr>"

subsection \<open>Disabling and enabling one line\<close>

definition get_n_events_by_type :: "nat \<Rightarrow> error + nat" where
  "get_n_events_by_type ty =
     (if ty \<noteq> EV_SW \<and> ty \<noteq> EV_KEY then Inl BUG
      else Inr (if ty = EV_KEY then KEY_CNT else SW_CNT))"

text \<open>\<open>gpio_to_irq\<close> is the platform's map from a GPIO to its interrupt number.\<close>

definition gpio_keys_disable_button ::
  "(int \<Rightarrow> int) \<Rightarrow> gpio_button_data \<Rightarrow> gpio_button_data \<times> call list" where
  "gpio_keys_disable_button gpio_to_irq bdata =
     (if \<not> disabled bdata then
        (if timer_debounce bdata \<noteq> 0
         then ((del_timer_sync bdata)\<lparr>disabled := True\<rparr>,
               [Disable_irq (gpio_to_irq (gpio (button bdata))),
                Del_timer_sync (gpio (button bdata))])
         else (bdata\<lparr>disabled := True\<rparr>, [Disable_irq (gpio_to_irq (gpio (button bdata)))]))
      else (bdata, []))"

definition gpio_keys_enable_button ::
  "(int \<Rightarrow> int) \<Rightarrow> gpio_button_data \<Rightarrow> gpio_button_data \<times> call list" where
  "gpio_keys_enable_button gpio_to_irq bdata =
     (if disabled bdata
      then (bdata\<lparr>disabled := False\<rparr>, [Enable_irq (gpio_to_irq (gpio (button bdata)))])
      else (bdata, []))"

subsection \<open>The attributes keys, switches, disabled\_keys and disabled\_switches\<close>

text \<open>The loop of \<open>gpio_keys_attr_show_helper\<close> that fills the bitmap.\<close>

fun show_bits :: "gpio_button_data list \<Rightarrow> nat \<Rightarrow> bool \<Rightarrow> nat set \<Rightarrow> nat set" where
  "show_bits [] ty only_disabled bits = bits"
| "show_bits (bdata # rest) ty only_disabled bits =
     (if type' (button bdata) \<noteq> ty then show_bits rest ty only_disabled bits
      else if only_disabled \<and> \<not> disabled bdata then show_bits rest ty only_disabled bits
      else show_bits rest ty only_disabled (insert (code (button bdata)) bits))"

text \<open>
  \<open>gpio_keys_attr_show_helper\<close>. The flag \<open>alloc_ok\<close> tells whether \<open>kcalloc\<close>
  returned a bitmap; \<open>scnlistprintf\<close> is \<open>bitmap_scnlistprintf\<close>, the kernel's printer
  of a bitmap as a range list. The result is the text left in the buffer (the return
  value of the source is its length).
\<close>

definition gpio_keys_attr_show_helper ::
  "(nat set \<Rightarrow> nat \<Rightarrow> string) \<Rightarrow> bool \<Rightarrow> gpio_keys_drvdata \<Rightarrow> nat \<Rightarrow> bool \<Rightarrow> error + string" where
  "gpio_keys_attr_show_helper scnlistprintf alloc_ok ddata ty only_disabled =
     (case get_n_events_by_type ty of
        Inl e \<Rightarrow> Inl e
      | Inr n_events \<Rightarrow>
          if \<not> alloc_ok then Inl ENOMEM
          else Inr (scnlistprintf (show_bits (data ddata) ty only_disabled {}) n_events
                    @ [CHR 0x0A]))"

text \<open>The first loop of \<open>gpio_keys_attr_store_helper\<close>: does validation reach \<open>-EINVAL\<close>?\<close>

fun validate :: "gpio_button_data list \<Rightarrow> nat \<Rightarrow> nat set \<Rightarrow> bool" where
  "validate [] ty bits = True"
| "validate (bdata # rest) ty bits =
     (if type' (button bdata) \<noteq> ty then validate rest ty bits
      else if code (button bdata) \<in> bits \<and> \<not> can_disable (button bdata) then False
      else validate rest ty bits)"

text \<open>The second loop, run with \<open>disable_lock\<close> held.\<close>

fun apply_bits ::
  "(int \<Rightarrow> int) \<Rightarrow> gpio_button_data list \<Rightarrow> nat \<Rightarrow> nat set
     \<Rightarrow> gpio_button_data list \<times> call list" where
  "apply_bits gpio_to_irq [] ty bits = ([], [])"
| "apply_bits gpio_to_irq (bdata # rest) ty bits =
     (if type' (button bdata) \<noteq> ty
      then (let (rest', cs) = apply_bits gpio_to_irq rest ty bits in (bdata # rest', cs))
      else
        (let (bdata', c) = (if code (button bdata) \<in> bits
                            then gpio_keys_disable_button gpio_to_irq bdata
                            else gpio_keys_enable_button gpio_to_irq bdata);
             (rest', cs) = apply_bits gpio_to_irq rest ty bits
         in (bdata' # rest', c @ cs)))"

text \<open>
  \<open>gpio_keys_attr_store_helper\<close>. \<open>parselist buf n\<close> is \<open>bitmap_parselist\<close>: the set of
  codes below \<open>n\<close> that the text names, or its error. The result is the returned error
  or 0, the driver data afterwards, and the calls made.
\<close>

definition gpio_keys_attr_store_helper ::
  "(int \<Rightarrow> int) \<Rightarrow> (string \<Rightarrow> nat \<Rightarrow> error + nat set) \<Rightarrow> bool \<Rightarrow> gpio_keys_drvdata
     \<Rightarrow> string \<Rightarrow> nat \<Rightarrow> (error + unit) \<times> gpio_keys_drvdata \<times> call list" where
  "gpio_keys_attr_store_helper gpio_to_irq parselist alloc_ok ddata buf ty =
     (case get_n_events_by_type ty of
        Inl e \<Rightarrow> (Inl e, ddata, [])
      | Inr n_events \<Rightarrow>
          if \<not> alloc_ok then (Inl ENOMEM, ddata, [])
          else
            (case parselist buf n_events of
               Inl e \<Rightarrow> (Inl e, ddata, [])
             | Inr bits \<Rightarrow>
                 if \<not> validate (data ddata) ty bits then (Inl EINVAL, ddata, [])
                 else
                   (let (data', cs) = apply_bits gpio_to_irq (data ddata) ty bits
                    in (Inr (), ddata\<lparr>data := data'\<rparr>, [Mutex_lock] @ cs @ [Mutex_unlock]))))"

text \<open>
  The store functions made by \<open>ATTR_STORE_FN\<close>: the error of the helper, or the byte
  count.
\<close>

definition gpio_keys_store ::
  "(int \<Rightarrow> int) \<Rightarrow> (string \<Rightarrow> nat \<Rightarrow> error + nat set) \<Rightarrow> bool \<Rightarrow> gpio_keys_drvdata
     \<Rightarrow> string \<Rightarrow> nat \<Rightarrow> nat \<Rightarrow> (error + nat) \<times> gpio_keys_drvdata \<times> call list" where
  "gpio_keys_store gpio_to_irq parselist alloc_ok ddata buf count ty =
     (case gpio_keys_attr_store_helper gpio_to_irq parselist alloc_ok ddata buf ty of
        (Inl e, ddata', cs) \<Rightarrow> (Inl e, ddata', cs)
      | (Inr u, ddata', cs) \<Rightarrow> (Inr count, ddata', cs))"

definition gpio_keys_store_disabled_keys ::
  "(int \<Rightarrow> int) \<Rightarrow> (string \<Rightarrow> nat \<Rightarrow> error + nat set) \<Rightarrow> bool \<Rightarrow> gpio_keys_drvdata
     \<Rightarrow> string \<Rightarrow> nat \<Rightarrow> (error + nat) \<times> gpio_keys_drvdata \<times> call list" where
  "gpio_keys_store_disabled_keys gpio_to_irq parselist alloc_ok ddata buf count =
     gpio_keys_store gpio_to_irq parselist alloc_ok ddata buf count EV_KEY"

definition gpio_keys_store_disabled_switches ::
  "(int \<Rightarrow> int) \<Rightarrow> (string \<Rightarrow> nat \<Rightarrow> error + nat set) \<Rightarrow> bool \<Rightarrow> gpio_keys_drvdata
     \<Rightarrow> string \<Rightarrow> nat \<Rightarrow> (error + nat) \<times> gpio_keys_drvdata \<times> call list" where
  "gpio_keys_store_disabled_switches gpio_to_irq parselist alloc_ok ddata buf count =
     gpio_keys_store gpio_to_irq parselist alloc_ok ddata buf count EV_SW"

subsection \<open>The attribute wakeup\_keys\<close>

text \<open>The loop of \<open>wakeup_enable\<close>; it visits every line, whatever its class.\<close>

fun set_wakeup :: "gpio_button_data list \<Rightarrow> nat set \<Rightarrow> gpio_button_data list" where
  "set_wakeup [] bits = []"
| "set_wakeup (bdata # rest) bits =
     (if code (button bdata) \<in> bits
      then bdata\<lparr>button := (button bdata)\<lparr>wakeup := 1\<rparr>\<rparr>
      else bdata\<lparr>button := (button bdata)\<lparr>wakeup := 0\<rparr>\<rparr>) # set_wakeup rest bits"

text \<open>\<open>wakeup_enable\<close>: the returned error or byte count, and the driver data afterwards.\<close>

definition wakeup_enable ::
  "(string \<Rightarrow> nat \<Rightarrow> error + nat set) \<Rightarrow> bool \<Rightarrow> gpio_keys_drvdata \<Rightarrow> string \<Rightarrow> nat
     \<Rightarrow> (error + nat) \<times> gpio_keys_drvdata" where
  "wakeup_enable parselist alloc_ok ddata buf count =
     (case get_n_events_by_type EV_KEY of
        Inl e \<Rightarrow> (Inl e, ddata)
      | Inr n_events \<Rightarrow>
          if \<not> alloc_ok then (Inl ENOMEM, ddata)
          else
            (case parselist buf n_events of
               Inl e \<Rightarrow> (Inr count, ddata)
             | Inr bits \<Rightarrow> (Inr count, ddata\<lparr>data := set_wakeup (data ddata) bits\<rparr>)))"

subsection \<open>The file's static variables\<close>

text \<open>
  The policy flags and session variables of the two remap sessions and of the on-demand
  emulator, under the names of the source. The five work items are kept by their
  pending state: a delayed work item is \<open>Some d\<close> while queued with delay \<open>d\<close>, an
  ordinary one is \<open>True\<close> while queued. \<open>volkey_debug_level\<close> only selects what is
  printed to the kernel log and is left out, with the printing.
\<close>

record statics =
  g_bVolUp :: bool
  g_bPower :: bool
  g_bHome :: bool
  emulator_volup :: bool
  emulator_voldown :: bool
  volkey_press_skip_track :: nat
  homekey_press_play :: nat
  volkey_skip_track_is_ongoing :: bool
  homekey_press_play_is_ongoing :: bool
  volkey_do_volume_key_press_is_ongoing :: bool
  homekey_do_press_play_is_ongoing :: bool
  volkey_skip_track_now :: bool
  homekey_press_play_now :: bool
  volkey_remap_keys :: bool
  homekey_is_remapped :: bool
  volkey_emulate_key_nextsong :: bool
  volkey_long_press_delay_ms :: nat
  homekey_long_press_delay_ms :: nat
  volkey_do_volume_key_press_delay_ms :: nat
  homekey_do_press_play_delay_ms :: nat
  volkey_skip_tracks_in_suspend_only :: nat
  homekey_press_play_in_suspend_only :: nat
  is_early_suspend :: bool
  is_suspend :: nat
  emu_working :: bool
  emu_keycode :: nat
  volkey_skip_track_work :: "nat option"
  homekey_press_play_work :: "nat option"
  volkey_do_volume_key_press_work :: bool
  homekey_do_press_play_work :: bool
  gpio_keys_emulator_work :: bool

text \<open>
  Modelled from the spec: \<open>schedule_delayed_work\<close> of the kernel's work queue
  (kernel/workqueue.c), which is not among the sources. Queueing an item that is
  already queued changes nothing.
\<close>

definition schedule_delayed_work :: "nat option \<Rightarrow> nat \<Rightarrow> nat option" where
  "schedule_delayed_work w delay = (case w of None \<Rightarrow> Some delay | Some d \<Rightarrow> Some d)"

text \<open>
  Modelled from the spec: \<open>cancel_delayed_work\<close> of kernel/workqueue.c, which is not
  among the sources. Cancelling takes the item off the queue.
\<close>

definition cancel_delayed_work :: "nat option \<Rightarrow> nat option" where
  "cancel_delayed_work w = None"

definition gpio_keys_setstate :: "nat \<Rightarrow> bool \<Rightarrow> statics \<Rightarrow> statics" where
  "gpio_keys_setstate keycode bState g =
     (if keycode = KEY_VOLUMEUP then g\<lparr>g_bVolUp := bState\<rparr>
      else if keycode = KEY_POWER then g\<lparr>g_bPower := bState\<rparr>
      else if keycode = KEY_HOME then g\<lparr>g_bHome := bState\<rparr>
      else g)"

definition volkey_skip_track_fn :: "statics \<Rightarrow> statics" where
  "volkey_skip_track_fn g = g\<lparr>volkey_skip_track_now := True, volkey_skip_track_is_ongoing := False\<rparr>"

definition homekey_press_play_fn :: "statics \<Rightarrow> statics" where
  "homekey_press_play_fn g =
     g\<lparr>homekey_press_play_now := True, homekey_press_play_is_ongoing := False\<rparr>"

text \<open>The key that \<open>volkey_do_volume_key_press_fn\<close> picks.\<close>

definition volkey_key :: "statics \<Rightarrow> int" where
  "volkey_key g =
     (if volkey_remap_keys g
      then (if volkey_emulate_key_nextsong g then int KEY_NEXTSONG else int KEY_PREVIOUSSONG)
      else (if volkey_emulate_key_nextsong g then int KEY_VOLUMEUP else int KEY_VOLUMEDOWN))"

definition volkey_do_volume_key_press_fn :: "statics \<Rightarrow> statics \<times> call list" where
  "volkey_do_volume_key_press_fn g =
     (g\<lparr>volkey_do_volume_key_press_is_ongoing := False\<rparr>,
      [Ponkey_emulator (volkey_key g) 1, Mdelay (volkey_do_volume_key_press_delay_ms g),
       Ponkey_emulator (volkey_key g) 0, Unmap_keys])"

definition homekey_do_press_play_fn :: "board \<Rightarrow> statics \<Rightarrow> statics \<times> call list" where
  "homekey_do_press_play_fn brd g =
     (let key = (if homekey_is_remapped g then int KEY_PLAYPAUSE else HOME_KEY_CODINA_R0_5 brd)
      in (g\<lparr>homekey_do_press_play_is_ongoing := False\<rparr>,
          [Ponkey_emulator key 1, Mdelay (homekey_do_press_play_delay_ms g),
           Ponkey_emulator key 0, Unmap_keys]))"

definition gpio_keys_early_suspend :: "statics \<Rightarrow> statics" where
  "gpio_keys_early_suspend g = g\<lparr>is_early_suspend := True, is_suspend := 0\<rparr>"

definition gpio_keys_late_resume :: "statics \<Rightarrow> statics" where
  "gpio_keys_late_resume g = g\<lparr>is_early_suspend := False, is_suspend := 0\<rparr>"

subsection \<open>Deferred evaluation: \<open>gpio_keys_report_event\<close>\<close>

text \<open>
  The logical state of a line: the level read from the GPIO, 1 or 0, xor the
  configured polarity. \<open>gpio_get_value_cansleep\<close> gives the level of each GPIO at the
  moment of the read.
\<close>

definition logical_state :: "(int \<Rightarrow> int) \<Rightarrow> gpio_keys_button \<Rightarrow> int" where
  "logical_state gpio_get_value_cansleep btn =
     (if gpio_get_value_cansleep (gpio btn) \<noteq> 0 then 1 else 0) XOR active_low btn"

text \<open>The conditions under which the function enters the sessions.\<close>

definition remap_gate :: "statics \<Rightarrow> bool" where
  "remap_gate g \<longleftrightarrow>
     (volkey_press_skip_track g \<noteq> 0 \<or> homekey_press_play g \<noteq> 0) \<and> is_suspend g = 0 \<and>
     (is_early_suspend g \<or> volkey_skip_tracks_in_suspend_only g = 0 \<or>
      homekey_press_play_in_suspend_only g = 0)"

definition homekey_gate :: "statics \<Rightarrow> bool" where
  "homekey_gate g \<longleftrightarrow> homekey_press_play g \<noteq> 0 \<or> homekey_press_play_in_suspend_only g = 0"

definition volkey_gate :: "statics \<Rightarrow> bool" where
  "volkey_gate g \<longleftrightarrow> volkey_press_skip_track g \<noteq> 0 \<or> volkey_skip_tracks_in_suspend_only g = 0"

text \<open>
  The body run for the home line. The second component is \<open>Some\<close> of the calls made
  when the body returns 0, and \<open>None\<close> when control leaves it without returning.
\<close>

definition homekey_session :: "board \<Rightarrow> statics \<Rightarrow> int \<Rightarrow> statics \<times> call list option" where
  "homekey_session brd g state =
     (let g1 = (if homekey_press_play_is_ongoing g \<and> state = 1
                then g\<lparr>homekey_press_play_work := cancel_delayed_work (homekey_press_play_work g),
                       homekey_press_play_is_ongoing := False,
                       homekey_press_play_now := False\<rparr>
                else g)
      in if state = 1 then
           (if \<not> homekey_press_play_is_ongoing g1
            then (g1\<lparr>homekey_press_play_work :=
                        schedule_delayed_work (homekey_press_play_work g1)
                          (homekey_long_press_delay_ms g1),
                      homekey_press_play_now := False,
                      homekey_press_play_is_ongoing := True\<rparr>, Some [])
            else (g1, Some []))
         else if state = 0 \<and> homekey_press_play_now g1 then
           (if \<not> homekey_do_press_play_is_ongoing g1
            then (g1\<lparr>homekey_is_remapped := True,
                      homekey_do_press_play_work := True,
                      homekey_do_press_play_is_ongoing := True,
                      homekey_press_play_now := False\<rparr>,
                  Some [Remap_power_key (int KEY_POWER) (int KEY_PLAYPAUSE)])
            else (g1, Some []))
         else if state = 0 \<and> \<not> homekey_press_play_now g1 then
           (if \<not> homekey_do_press_play_is_ongoing g1
            then (g1\<lparr>homekey_is_remapped := False,
                      homekey_do_press_play_work := True,
                      homekey_do_press_play_is_ongoing := True\<rparr>,
                  Some [Remap_power_key (int KEY_POWER) (HOME_KEY_CODINA_R0_5 brd)])
            else (g1, Some []))
         else (g1, None))"

text \<open>The body run for the two volume lines, with the same convention.\<close>

definition volkey_session ::
  "board \<Rightarrow> statics \<Rightarrow> gpio_keys_button \<Rightarrow> int \<Rightarrow> statics \<times> call list option" where
  "volkey_session brd g btn state =
     (let g1 = (if volkey_skip_track_is_ongoing g \<and> state = 1
                then g\<lparr>volkey_skip_track_work := cancel_delayed_work (volkey_skip_track_work g),
                       volkey_skip_track_is_ongoing := False,
                       volkey_skip_track_now := False\<rparr>
                else g);
          g2 = g1\<lparr>volkey_emulate_key_nextsong := (gpio btn = VOL_UP_JANICE_R0_0 brd)\<rparr>
      in if state = 1 then
           (if \<not> volkey_skip_track_is_ongoing g2
            then (g2\<lparr>volkey_skip_track_work :=
                        schedule_delayed_work (volkey_skip_track_work g2)
                          (volkey_long_press_delay_ms g2),
                      volkey_skip_track_now := False,
                      volkey_skip_track_is_ongoing := True\<rparr>, Some [])
            else (g2, Some []))
         else if state = 0 \<and> volkey_skip_track_now g2 then
           (if \<not> volkey_do_volume_key_press_is_ongoing g2
            then (g2\<lparr>volkey_remap_keys := True,
                      volkey_do_volume_key_press_work := True,
                      volkey_do_volume_key_press_is_ongoing := True,
                      volkey_skip_track_now := False\<rparr>,
                  Some [Remap_power_key (int KEY_POWER)
                          (if volkey_emulate_key_nextsong g2 then int KEY_NEXTSONG
                           else int KEY_PREVIOUSSONG)])
            else (g2, Some []))
         else if state = 0 \<and> \<not> volkey_skip_track_now g2 then
           (if \<not> volkey_do_volume_key_press_is_ongoing g2
            then (g2\<lparr>volkey_remap_keys := False,
                      volkey_do_volume_key_press_work := True,
                      volkey_do_volume_key_press_is_ongoing := True\<rparr>,
                  Some [Remap_power_key (int KEY_POWER)
                          (if volkey_emulate_key_nextsong g2 then int KEY_VOLUMEUP
                           else int KEY_VOLUMEDOWN)])
            else (g2, Some []))
         else (g2, None))"

text \<open>The ordinary report at the end of the function.\<close>

definition report_input :: "gpio_button_data \<Rightarrow> int \<Rightarrow> gpio_button_data \<times> call list" where
  "report_input bdata state =
     (let btn = button bdata;
          ty = (if type' btn \<noteq> 0 then type' btn else EV_KEY)
      in if ty = EV_ABS
         then (bdata,
               (if state \<noteq> 0 then [Input_event ty (code btn) (value' btn)] else [])
               @ [Input_sync])
         else (bdata\<lparr>key_state := (state \<noteq> 0)\<rparr>,
               [Input_event ty (code btn) (if state \<noteq> 0 then 1 else 0), Input_sync]))"

text \<open>
  \<open>gpio_keys_report_event\<close>: the static variables and the line afterwards, and the calls
  made (the function always returns 0).
\<close>

definition gpio_keys_report_event ::
  "board \<Rightarrow> (int \<Rightarrow> int) \<Rightarrow> statics \<Rightarrow> gpio_button_data
     \<Rightarrow> statics \<times> gpio_button_data \<times> call list" where
  "gpio_keys_report_event brd gpio_get_value_cansleep g bdata =
     (let btn = button bdata;
          state = logical_state gpio_get_value_cansleep btn;
          ordinary = (\<lambda>g'. (let (bdata', cs) = report_input bdata state in (g', bdata', cs)))
      in if emulator_volup g then
           (if gpio btn = VOL_UP_JANICE_R0_0 brd
            then (g, bdata, [Ponkey_emulator (int KEY_POWER) state])
            else ordinary g)
         else if emulator_voldown g then
           (if gpio btn = VOL_DOWN_JANICE_R0_0 brd
            then (g, bdata, [Ponkey_emulator (int KEY_POWER) state])
            else ordinary g)
         else if remap_gate g then
           (case (if homekey_gate g \<and> gpio btn = HOME_KEY_JANICE_R0_0 brd
                  then homekey_session brd g state else (g, None)) of
              (g', Some cs) \<Rightarrow> (g', bdata, cs)
            | (g', None) \<Rightarrow>
                (case (if volkey_gate g' \<and>
                          (gpio btn = VOL_UP_JANICE_R0_0 brd \<or> gpio btn = VOL_DOWN_JANICE_R0_0 brd)
                       then volkey_session brd g' btn state else (g', None)) of
                   (g'', Some cs) \<Rightarrow> (g'', bdata, cs)
                 | (g'', None) \<Rightarrow> ordinary g''))
         else ordinary g)"

definition gpio_keys_work_func ::
  "board \<Rightarrow> (int \<Rightarrow> int) \<Rightarrow> statics \<Rightarrow> gpio_button_data
     \<Rightarrow> statics \<times> gpio_button_data \<times> call list" where
  "gpio_keys_work_func brd gpio_get_value_cansleep g bdata =
     gpio_keys_report_event brd gpio_get_value_cansleep g bdata"

definition gpio_keys_timer :: "gpio_button_data \<Rightarrow> gpio_button_data" where
  "gpio_keys_timer bdata = schedule_work bdata"

text \<open>
  \<open>gpio_keys_isr\<close>, run when the counter \<open>jiffies\<close> holds the given value.
  \<open>timer_debounce\<close> is an int that \<open>msecs_to_jiffies\<close> takes as an unsigned int, and
  the sum with \<open>jiffies\<close> is an unsigned long: it wraps at \<open>2 ^ BITS_PER_LONG\<close>, where
  \<open>BITS_PER_LONG\<close> is the width of a long on the target (32 on the boards of this
  driver).
\<close>

definition gpio_keys_isr ::
  "nat \<Rightarrow> (int \<Rightarrow> int) \<Rightarrow> (nat \<Rightarrow> nat) \<Rightarrow> nat \<Rightarrow> int \<Rightarrow> gpio_button_data
     \<Rightarrow> error + gpio_button_data" where
  "gpio_keys_isr BITS_PER_LONG gpio_to_irq msecs_to_jiffies jiffies irq bdata =
     (if irq \<noteq> gpio_to_irq (gpio (button bdata)) then Inl BUG
      else if timer_debounce bdata \<noteq> 0
      then Inr (mod_timer
                  ((jiffies + msecs_to_jiffies (nat (timer_debounce bdata mod 2 ^ 32)))
                     mod 2 ^ BITS_PER_LONG) bdata)
      else Inr (schedule_work bdata))"

subsection \<open>The on-demand emulator\<close>

text \<open>The search loop of \<open>gpio_keys_emulator\<close>: the first line with the key code.\<close>

fun find_button :: "gpio_button_data list \<Rightarrow> nat \<Rightarrow> nat option" where
  "find_button [] keycode = None"
| "find_button (bdata # rest) keycode =
     (if code (button bdata) = keycode then Some 0
      else map_option Suc (find_button rest keycode))"

definition gpio_keys_emulator ::
  "nat \<Rightarrow> bool \<Rightarrow> statics \<Rightarrow> gpio_keys_drvdata \<Rightarrow> int \<times> statics \<times> gpio_keys_drvdata \<times> call list" where
  "gpio_keys_emulator keycode press g ddata =
     (case find_button (data ddata) keycode of
        None \<Rightarrow> (- 1, g, ddata, [])
      | Some idx \<Rightarrow>
          (0, gpio_keys_setstate keycode press g,
           ddata\<lparr>data := (data ddata)[idx := (data ddata ! idx)\<lparr>key_state := press\<rparr>]\<rparr>,
           [Input_event EV_KEY keycode (if press then 1 else 0), Input_sync]))"

definition gpio_keys_emulator_thread ::
  "statics \<Rightarrow> gpio_keys_drvdata \<Rightarrow> statics \<times> gpio_keys_drvdata \<times> call list" where
  "gpio_keys_emulator_thread g ddata =
     (let g1 = g\<lparr>emu_working := True\<rparr>;
          (r, g2, ddata2, cs) = gpio_keys_emulator (emu_keycode g1) True g1 ddata
      in if r < 0 then (g2\<lparr>emu_working := False\<rparr>, ddata2, cs)
         else
           (let (r', g3, ddata3, cs') = gpio_keys_emulator (emu_keycode g2) False g2 ddata2
            in (g3\<lparr>emu_working := False\<rparr>, ddata3, cs @ [Mdelay 100] @ cs')))"

text \<open>
  What a string function of C reads of a buffer: the bytes before the first NUL.
\<close>

definition c_string :: "string \<Rightarrow> string" where
  "c_string buf = takeWhile (\<lambda>c. c \<noteq> CHR 0x00) buf"

text \<open>Does \<open>needle\<close> occur in \<open>s\<close> as a run of consecutive bytes?\<close>

fun occurs_in :: "string \<Rightarrow> string \<Rightarrow> bool" where
  "occurs_in [] needle = (needle = [])"
| "occurs_in (c # cs) needle = (take (length needle) (c # cs) = needle \<or> occurs_in cs needle)"

text \<open>
  \<open>strstr(buf, needle) != NULL\<close> of the C library (lib/string.c, not among the
  sources): does the string \<open>needle\<close> occur in the string \<open>buf\<close>, both ending at
  their first NUL.
\<close>

definition strstr :: "string \<Rightarrow> string \<Rightarrow> bool" where
  "strstr buf needle = occurs_in (c_string buf) (c_string needle)"

text \<open>
  \<open>gpio_keys_emulator_store\<close>: the returned byte count and the static variables
  afterwards. \<open>sscanf_d\<close> is \<open>sscanf\<close> with the format \<open>%d\<close>: the number read, or
  \<open>None\<close> when nothing was converted. \<open>strncmp\<close> with the length 12 finds the
  two strings equal when the first 12 bytes of the buffer are those of the literal.
\<close>

definition gpio_keys_emulator_store ::
  "(string \<Rightarrow> int option) \<Rightarrow> statics \<Rightarrow> string \<Rightarrow> nat \<Rightarrow> nat \<times> statics" where
  "gpio_keys_emulator_store sscanf_d g buf count =
     (if take 12 buf = ''emu_keycode='' then
        (case sscanf_d (c_string (drop 12 buf)) of
           Some keycode \<Rightarrow> (count, g\<lparr>emu_keycode := nat (keycode mod 2 ^ 32)\<rparr>)
         | None \<Rightarrow> (count, g))
      else if strstr buf ''press'' then
        (if \<not> emu_working g \<and> emu_keycode g \<noteq> 0
         then (count, g\<lparr>gpio_keys_emulator_work := True\<rparr>)
         else (count, g))
      else (count, g))"

subsection \<open>The kernel running timers and work items\<close>

text \<open>
  Modelled from the spec: \<open>time_after_eq(a, b)\<close> of linux/jiffies.h, which is not
  among the sources, the kernel's comparison of two values of the wrapping counter:
  the difference, taken as a signed long, is not negative.
\<close>

definition time_after_eq :: "nat \<Rightarrow> nat \<Rightarrow> nat \<Rightarrow> bool" where
  "time_after_eq BITS_PER_LONG a b \<longleftrightarrow>
     (int a - int b) mod 2 ^ BITS_PER_LONG < 2 ^ (BITS_PER_LONG - 1)"

text \<open>
  Modelled from the spec: the kernel running its timers (kernel/timer.c), which is not
  among the sources, when the counter \<open>jiffies\<close> holds the given value. A pending
  timer whose expiry has come is taken off and its function, here \<open>gpio_keys_timer\<close>,
  runs once.
\<close>

definition run_timer :: "nat \<Rightarrow> nat \<Rightarrow> gpio_button_data \<Rightarrow> gpio_button_data" where
  "run_timer BITS_PER_LONG jiffies bdata =
     (case timer bdata of
        None \<Rightarrow> bdata
      | Some expires \<Rightarrow>
          if time_after_eq BITS_PER_LONG jiffies expires
          then gpio_keys_timer (bdata\<lparr>timer := None\<rparr>) else bdata)"

text \<open>
  Modelled from the spec: a worker of the kernel's work queue (kernel/workqueue.c),
  which is not among the sources. A queued work item is taken off the queue and its
  function, here \<open>gpio_keys_work_func\<close>, runs once, reading the GPIO levels of that
  moment.
\<close>

definition run_work ::
  "board \<Rightarrow> (int \<Rightarrow> int) \<Rightarrow> statics \<Rightarrow> gpio_button_data
     \<Rightarrow> statics \<times> gpio_button_data \<times> call list" where
  "run_work brd gpio_get_value_cansleep g bdata =
     (if work bdata
      then gpio_keys_work_func brd gpio_get_value_cansleep g (bdata\<lparr>work := False\<rparr>)
      else (g, bdata, []))"

text \<open>
  Modelled from the spec: interrupt delivery, which is not among the sources. A burst
  of hardware edges on one line, at the given ticks since the counter was 0: at the
  tick \<open>t\<close> the counter \<open>jiffies\<close> holds \<open>t mod 2 ^ BITS_PER_LONG\<close>. Before each
  edge the timer runs if it is due, then the interrupt handler runs with the line's
  own interrupt number.
\<close>

fun edges ::
  "nat \<Rightarrow> (int \<Rightarrow> int) \<Rightarrow> (nat \<Rightarrow> nat) \<Rightarrow> nat list \<Rightarrow> gpio_button_data
     \<Rightarrow> error + gpio_button_data" where
  "edges BITS_PER_LONG gpio_to_irq msecs_to_jiffies [] bdata = Inr bdata"
| "edges BITS_PER_LONG gpio_to_irq msecs_to_jiffies (t # ts) bdata =
     (case gpio_keys_isr BITS_PER_LONG gpio_to_irq msecs_to_jiffies (t mod 2 ^ BITS_PER_LONG)
             (gpio_to_irq (gpio (button bdata)))
             (run_timer BITS_PER_LONG (t mod 2 ^ BITS_PER_LONG) bdata) of
        Inl e \<Rightarrow> Inl e
      | Inr bdata' \<Rightarrow> edges BITS_PER_LONG gpio_to_irq msecs_to_jiffies ts bdata')"

text \<open>
  Every edge after the first comes, in ticks, while the arm of the edge before it is
  pending: less than \<open>d\<close> ticks after it.
\<close>

fun within_window :: "nat \<Rightarrow> nat list \<Rightarrow> bool" where
  "within_window d [] = True"
| "within_window d [t] = True"
| "within_window d (t # t' # ts) = (t \<le> t' \<and> t' < t + d \<and> within_window d (t' # ts))"

text \<open>
  Modelled from the spec: the execution contexts that call into the driver, which are
  not among the sources. What can happen to the sessions, one event at a time: the
  deferred evaluation of the line at an index of \<open>data\<close> under the GPIO levels of
  that moment, a long-press delayed work coming due (it runs only if queued, and is
  taken off the queue), a worker running an emulation work item (likewise), and a
  write to the emulator attribute.
\<close>

datatype event =
    Evaluate nat "int \<Rightarrow> int"
  | Skip_track_timer
  | Press_play_timer
  | Volume_key_press_work
  | Press_play_work
  | Emulator_work
  | Emulator_write string

type_synonym world = "statics \<times> gpio_keys_drvdata \<times> call list"

fun step :: "board \<Rightarrow> (string \<Rightarrow> int option) \<Rightarrow> event \<Rightarrow> world \<Rightarrow> world" where
  "step brd sscanf_d (Evaluate i levels) (g, ddata, cs) =
     (if i < length (data ddata)
      then (let (g', bdata', cs') = gpio_keys_work_func brd levels g (data ddata ! i)
            in (g', ddata\<lparr>data := (data ddata)[i := bdata']\<rparr>, cs @ cs'))
      else (g, ddata, cs))"
| "step brd sscanf_d Skip_track_timer (g, ddata, cs) =
     (case volkey_skip_track_work g of
        None \<Rightarrow> (g, ddata, cs)
      | Some d \<Rightarrow> (volkey_skip_track_fn (g\<lparr>volkey_skip_track_work := None\<rparr>), ddata, cs))"
| "step brd sscanf_d Press_play_timer (g, ddata, cs) =
     (case homekey_press_play_work g of
        None \<Rightarrow> (g, ddata, cs)
      | Some d \<Rightarrow> (homekey_press_play_fn (g\<lparr>homekey_press_play_work := None\<rparr>), ddata, cs))"
| "step brd sscanf_d Volume_key_press_work (g, ddata, cs) =
     (if volkey_do_volume_key_press_work g
      then (let (g', cs') = volkey_do_volume_key_press_fn (g\<lparr>volkey_do_volume_key_press_work := False\<rparr>)
            in (g', ddata, cs @ cs'))
      else (g, ddata, cs))"
| "step brd sscanf_d Press_play_work (g, ddata, cs) =
     (if homekey_do_press_play_work g
      then (let (g', cs') = homekey_do_press_play_fn brd (g\<lparr>homekey_do_press_play_work := False\<rparr>)
            in (g', ddata, cs @ cs'))
      else (g, ddata, cs))"
| "step brd sscanf_d Emulator_work (g, ddata, cs) =
     (if gpio_keys_emulator_work g
      then (let (g', ddata', cs') = gpio_keys_emulator_thread (g\<lparr>gpio_keys_emulator_work := False\<rparr>) ddata
            in (g', ddata', cs @ cs'))
      else (g, ddata, cs))"
| "step brd sscanf_d (Emulator_write buf) (g, ddata, cs) =
     (snd (gpio_keys_emulator_store sscanf_d g buf (length buf)), ddata, cs)"

fun run :: "board \<Rightarrow> (string \<Rightarrow> int option) \<Rightarrow> event list \<Rightarrow> world \<Rightarrow> world" where
  "run brd sscanf_d [] w = w"
| "run brd sscanf_d (e # es) w = run brd sscanf_d es (step brd sscanf_d e w)"

subsection \<open>A board and its lines, for running the definitions\<close>

text \<open>
  The switches of the comment at the head of the source: dock (5), camera lens cover
  (9), keypad slide (10) and front proximity (11), here with software debounce. The
  dock shares its interrupt and so cannot be disabled; the lens cover is currently
  disabled.
\<close>

definition switch_line :: "nat \<Rightarrow> int \<Rightarrow> bool \<Rightarrow> gpio_keys_button" where
  "switch_line c g d =
     \<lparr>code = c, gpio = g, active_low = 1, type' = EV_SW, wakeup = 0,
      debounce_interval = 10, can_disable = d, value' = 0\<rparr>"

definition key_line :: "nat \<Rightarrow> int \<Rightarrow> gpio_keys_button" where
  "key_line c g =
     \<lparr>code = c, gpio = g, active_low = 1, type' = EV_KEY, wakeup = 0,
      debounce_interval = 0, can_disable = False, value' = 0\<rparr>"

definition abs_line :: "nat \<Rightarrow> int \<Rightarrow> int \<Rightarrow> gpio_keys_button" where
  "abs_line c g v =
     \<lparr>code = c, gpio = g, active_low = 0, type' = EV_ABS, wakeup = 0,
      debounce_interval = 0, can_disable = False, value' = v\<rparr>"

text \<open>The runtime state of a line after probing: nothing pending, enabled.\<close>

definition probed :: "gpio_keys_button \<Rightarrow> gpio_button_data" where
  "probed btn =
     \<lparr>button = btn, timer = None, work = False, timer_debounce = debounce_interval btn,
      disabled = False, key_state = False\<rparr>"

definition example_switches :: gpio_keys_drvdata where
  "example_switches =
     \<lparr>enabled = True,
      data = [probed (switch_line 5 20 False),
              (probed (switch_line 9 21 True))\<lparr>disabled := True\<rparr>,
              probed (switch_line 10 22 True),
              (probed (switch_line 11 23 True))\<lparr>timer := Some 700\<rparr>]\<rparr>"

definition example_gpio_to_irq :: "int \<Rightarrow> int" where
  "example_gpio_to_irq g = g + 256"

text \<open>What \<open>bitmap_parselist\<close> makes of the texts written in the examples.\<close>

definition example_parselist :: "string \<Rightarrow> nat \<Rightarrow> error + nat set" where
  "example_parselist buf n =
     (if buf = ''11,5'' \<and> 11 < n then Inr {11, 5}
      else if buf = ''11'' \<and> 11 < n then Inr {11}
      else if buf = ''115'' \<and> 115 < n then Inr {115}
      else Inl EINVAL)"

text \<open>
  The keys of a Janice board: volume up on GPIO 67, volume down on GPIO 92 and home on
  GPIO 91, all active low and without software debounce; and a proximity sensor
  reported as an absolute axis, active high.
\<close>

definition janice :: board where
  "janice =
     \<lparr>VOL_UP_JANICE_R0_0 = 67, VOL_DOWN_JANICE_R0_0 = 92, HOME_KEY_JANICE_R0_0 = 91,
      HOME_KEY_CODINA_R0_5 = 91\<rparr>"

definition example_keys :: gpio_keys_drvdata where
  "example_keys =
     \<lparr>enabled = True,
      data = [probed (key_line KEY_VOLUMEUP 67), probed (key_line KEY_VOLUMEDOWN 92),
              probed (key_line KEY_HOME 91), probed (abs_line 25 30 7)]\<rparr>"

text \<open>The static variables as their initialisers leave them.\<close>

definition idle_statics :: statics where
  "idle_statics =
     \<lparr>g_bVolUp = False, g_bPower = False, g_bHome = False,
      emulator_volup = False, emulator_voldown = False,
      volkey_press_skip_track = 0, homekey_press_play = 0,
      volkey_skip_track_is_ongoing = False, homekey_press_play_is_ongoing = False,
      volkey_do_volume_key_press_is_ongoing = False, homekey_do_press_play_is_ongoing = False,
      volkey_skip_track_now = False, homekey_press_play_now = False,
      volkey_remap_keys = False, homekey_is_remapped = False,
      volkey_emulate_key_nextsong = False,
      volkey_long_press_delay_ms = 300, homekey_long_press_delay_ms = 300,
      volkey_do_volume_key_press_delay_ms = 101, homekey_do_press_play_delay_ms = 101,
      volkey_skip_tracks_in_suspend_only = 1, homekey_press_play_in_suspend_only = 1,
      is_early_suspend = False, is_suspend = 0,
      emu_working = False, emu_keycode = 0,
      volkey_skip_track_work = None, homekey_press_play_work = None,
      volkey_do_volume_key_press_work = False, homekey_do_press_play_work = False,
      gpio_keys_emulator_work = False\<rparr>"

text \<open>Both remap features switched on, the screen off.\<close>

definition remap_statics :: statics where
  "remap_statics =
     idle_statics\<lparr>volkey_press_skip_track := 1, homekey_press_play := 1,
                  is_early_suspend := True\<rparr>"

text \<open>GPIO levels; the keys are active low, so a held key reads 0.\<close>

definition all_high :: "int \<Rightarrow> int" where
  "all_high g = 1"

definition all_low :: "int \<Rightarrow> int" where
  "all_low g = 0"

definition volup_held :: "int \<Rightarrow> int" where
  "volup_held g = (if g = 67 then 0 else 1)"

definition both_vol_held :: "int \<Rightarrow> int" where
  "both_vol_held g = (if g = 67 \<or> g = 92 then 0 else 1)"

definition home_held :: "int \<Rightarrow> int" where
  "home_held g = (if g = 91 then 0 else 1)"

definition example_sscanf :: "string \<Rightarrow> int option" where
  "example_sscanf buf = (if buf = ''115'' then Some 115 else None)"

text \<open>\<open>msecs_to_jiffies\<close> with 1000 ticks a second.\<close>

definition example_msecs_to_jiffies :: "nat \<Rightarrow> nat" where
  "example_msecs_to_jiffies m = m"


section \<open>Properties\<close>

lemmas input_consts =
  EV_KEY_def EV_ABS_def EV_SW_def KEY_CNT_def SW_CNT_def KEY_HOME_def KEY_VOLUMEDOWN_def
  KEY_VOLUMEUP_def KEY_POWER_def KEY_NEXTSONG_def KEY_PLAYPAUSE_def KEY_PREVIOUSSONG_def

lemmas example_defs =
  switch_line_def key_line_def abs_line_def probed_def example_switches_def
  example_gpio_to_irq_def example_parselist_def janice_def example_keys_def idle_statics_def
  remap_statics_def all_high_def all_low_def volup_held_def both_vol_held_def home_held_def
  example_sscanf_def example_msecs_to_jiffies_def

lemmas session_defs =
  gpio_keys_work_func_def gpio_keys_report_event_def logical_state_def remap_gate_def
  homekey_gate_def volkey_gate_def homekey_session_def volkey_session_def report_input_def
  volkey_do_volume_key_press_fn_def homekey_do_press_play_fn_def volkey_key_def
  volkey_skip_track_fn_def homekey_press_play_fn_def schedule_delayed_work_def
  cancel_delayed_work_def Let_def

subsection \<open>Disabling and enabling\<close>

lemma validate_iff:
  "validate xs ty bits \<longleftrightarrow>
     (\<forall>b \<in> set xs. type' (button b) = ty \<longrightarrow> code (button b) \<in> bits \<longrightarrow> can_disable (button b))"
  by (induction xs) auto

lemma apply_bits_length: "length (fst (apply_bits irq xs ty bits)) = length xs"
  by (induction xs) (auto split: prod.splits)

lemma apply_bits_nth:
  "i < length xs \<Longrightarrow>
   fst (apply_bits irq xs ty bits) ! i =
     (if type' (button (xs ! i)) \<noteq> ty then xs ! i
      else if code (button (xs ! i)) \<in> bits then fst (gpio_keys_disable_button irq (xs ! i))
      else fst (gpio_keys_enable_button irq (xs ! i)))"
proof (induction xs arbitrary: i)
  case Nil
  then show ?case by simp
next
  case (Cons x xs)
  then show ?case by (cases i) (auto split: prod.splits)
qed

lemma apply_bits_calls:
  "set (snd (apply_bits irq xs ty bits)) =
     (\<Union>b \<in> set xs. if type' (button b) \<noteq> ty then {}
        else if code (button b) \<in> bits then set (snd (gpio_keys_disable_button irq b))
        else set (snd (gpio_keys_enable_button irq b)))"
  by (induction xs) (auto split: prod.splits)

lemma apply_bits_no_mutex:
  "Mutex_lock \<notin> set (snd (apply_bits irq xs ty bits))"
  "Mutex_unlock \<notin> set (snd (apply_bits irq xs ty bits))"
  by (auto simp: apply_bits_calls gpio_keys_disable_button_def gpio_keys_enable_button_def
      split: if_splits)

text \<open>
  Claim C5. Disabling a line that is already disabled, and enabling a line that is
  already enabled, changes nothing: the line (its \<open>disabled\<close> flag and its timer
  included) stays as it is and no call is made, so the interrupt is neither masked nor
  unmasked again; and the bitmap that the attributes show for the driver data with
  the line put back is the one shown before. Hence doing either operation twice is
  the same as doing it once.
\<close>

theorem disable_enable_idempotent:
  "(disabled bdata \<longrightarrow> gpio_keys_disable_button irq bdata = (bdata, [])) \<and>
   (\<not> disabled bdata \<longrightarrow> gpio_keys_enable_button irq bdata = (bdata, [])) \<and>
   gpio_keys_disable_button irq (fst (gpio_keys_disable_button irq bdata)) =
     (fst (gpio_keys_disable_button irq bdata), []) \<and>
   gpio_keys_enable_button irq (fst (gpio_keys_enable_button irq bdata)) =
     (fst (gpio_keys_enable_button irq bdata), []) \<and>
   (i < length (data ddata) \<and> bdata = data ddata ! i \<and> disabled bdata \<longrightarrow>
      gpio_keys_attr_show_helper scn ok
        (ddata\<lparr>data := (data ddata)[i := fst (gpio_keys_disable_button irq bdata)]\<rparr>) ty od =
      gpio_keys_attr_show_helper scn ok ddata ty od) \<and>
   (i < length (data ddata) \<and> bdata = data ddata ! i \<and> \<not> disabled bdata \<longrightarrow>
      gpio_keys_attr_show_helper scn ok
        (ddata\<lparr>data := (data ddata)[i := fst (gpio_keys_enable_button irq bdata)]\<rparr>) ty od =
      gpio_keys_attr_show_helper scn ok ddata ty od)"
  by (auto simp: gpio_keys_disable_button_def gpio_keys_enable_button_def del_timer_sync_def)

theorem disable_enable_idempotent_witness:
  "gpio_keys_disable_button example_gpio_to_irq (data example_switches ! 1) =
     (data example_switches ! 1, []) \<and>
   gpio_keys_enable_button example_gpio_to_irq (data example_switches ! 2) =
     (data example_switches ! 2, []) \<and>
   show_bits (data (example_switches\<lparr>data := (data example_switches)
       [1 := fst (gpio_keys_disable_button example_gpio_to_irq (data example_switches ! 1))]\<rparr>))
     EV_SW True {} = {9}"
  using disable_enable_idempotent [of "data example_switches ! 1" example_gpio_to_irq]
    disable_enable_idempotent [of "data example_switches ! 2" example_gpio_to_irq]
  by (simp add: example_defs input_consts)

text \<open>
  Claim C1. A write to \<open>disabled_keys\<close> or \<open>disabled_switches\<close> whose parsed bitmap
  names the code of a line of that class that cannot be disabled fails with an error
  (\<open>-EINVAL\<close>, or \<open>-ENOMEM\<close> when the bitmap could not even be allocated), and leaves
  the driver data as they were, with no call made: no line's \<open>disabled\<close> flag or timer
  changes, and no interrupt is masked or unmasked.
\<close>

theorem store_rejects_non_disableable:
  assumes "get_n_events_by_type ty = Inr n"
    and "parselist buf n = Inr bits"
    and "bdata \<in> set (data ddata)" and "type' (button bdata) = ty"
    and "code (button bdata) \<in> bits" and "\<not> can_disable (button bdata)"
  shows "gpio_keys_store irq parselist alloc_ok ddata buf count ty =
           (Inl (if alloc_ok then EINVAL else ENOMEM), ddata, [])"
proof -
  have "\<not> validate (data ddata) ty bits"
    using assms(3-6) by (auto simp: validate_iff)
  then show ?thesis
    using assms(1,2)
    by (simp add: gpio_keys_store_def gpio_keys_attr_store_helper_def)
qed

theorem store_rejects_non_disableable_witness:
  "gpio_keys_store_disabled_switches example_gpio_to_irq example_parselist True
     example_switches ''11,5'' 5 = (Inl EINVAL, example_switches, []) \<and>
   show_bits (data example_switches) EV_SW True {} = {9}"
  using store_rejects_non_disableable [of EV_SW 16 example_parselist "''11,5''" "{11, 5}"
      "probed (switch_line 5 20 False)" example_switches example_gpio_to_irq True 5]
  by (simp add: example_defs input_consts get_n_events_by_type_def
      gpio_keys_store_disabled_switches_def)

text \<open>
  Claim C4. A write to \<open>disabled_keys\<close> or \<open>disabled_switches\<close> that succeeds
  returns the byte count, and its calls are one \<open>mutex_lock\<close>, the calls of the apply
  loop, and one \<open>mutex_unlock\<close>, with no lock or unlock in between. Afterwards every
  line of the class whose code the bitmap names is disabled; if it was not disabled
  before, its interrupt was masked inside the lock and, where the line has a software
  debounce timer, \<open>del_timer_sync\<close> was called inside the lock and the timer is not
  pending. Every line of the class that is not named is enabled; if it was disabled
  before, its interrupt was unmasked inside the lock. Lines of another class are
  untouched, and no line's configuration changes.
\<close>

theorem store_applies_under_lock:
  assumes n: "get_n_events_by_type ty = Inr n"
    and p: "parselist buf n = Inr bits"
    and ok: "gpio_keys_store irq parselist alloc_ok ddata buf count ty = (Inr r, ddata', cs)"
  shows "r = count \<and>
         (\<exists>ops. cs = [Mutex_lock] @ ops @ [Mutex_unlock] \<and>
           Mutex_lock \<notin> set ops \<and> Mutex_unlock \<notin> set ops \<and>
           length (data ddata') = length (data ddata) \<and>
           (\<forall>i < length (data ddata).
              let b = data ddata ! i; b' = data ddata' ! i in
                button b' = button b \<and>
                (type' (button b) \<noteq> ty \<longrightarrow> b' = b) \<and>
                (type' (button b) = ty \<and> code (button b) \<in> bits \<longrightarrow>
                   disabled b' \<and>
                   (\<not> disabled b \<longrightarrow>
                      Disable_irq (irq (gpio (button b))) \<in> set ops \<and>
                      (timer_debounce b \<noteq> 0 \<longrightarrow>
                         Del_timer_sync (gpio (button b)) \<in> set ops \<and> timer b' = None))) \<and>
                (type' (button b) = ty \<and> code (button b) \<notin> bits \<longrightarrow>
                   \<not> disabled b' \<and>
                   (disabled b \<longrightarrow> Enable_irq (irq (gpio (button b))) \<in> set ops))))"
proof -
  obtain data' ops where ab: "apply_bits irq (data ddata) ty bits = (data', ops)"
    by (cases "apply_bits irq (data ddata) ty bits")
  from ok n p ab have d: "ddata' = ddata\<lparr>data := data'\<rparr>"
    and c: "cs = [Mutex_lock] @ ops @ [Mutex_unlock]" and r: "r = count"
    by (auto simp: gpio_keys_store_def gpio_keys_attr_store_helper_def split: if_splits)
  have d': "data' = fst (apply_bits irq (data ddata) ty bits)"
    and o': "ops = snd (apply_bits irq (data ddata) ty bits)"
    using ab by simp_all
  have "\<forall>i < length (data ddata).
          let b = data ddata ! i; b' = data' ! i in
            button b' = button b \<and>
            (type' (button b) \<noteq> ty \<longrightarrow> b' = b) \<and>
            (type' (button b) = ty \<and> code (button b) \<in> bits \<longrightarrow>
               disabled b' \<and>
               (\<not> disabled b \<longrightarrow>
                  Disable_irq (irq (gpio (button b))) \<in> set ops \<and>
                  (timer_debounce b \<noteq> 0 \<longrightarrow>
                     Del_timer_sync (gpio (button b)) \<in> set ops \<and> timer b' = None))) \<and>
            (type' (button b) = ty \<and> code (button b) \<notin> bits \<longrightarrow>
               \<not> disabled b' \<and>
               (disabled b \<longrightarrow> Enable_irq (irq (gpio (button b))) \<in> set ops))"
  proof (intro allI impI)
    fix i
    assume i: "i < length (data ddata)"
    then have m: "data ddata ! i \<in> set (data ddata)"
      by simp
    show "let b = data ddata ! i; b' = data' ! i in
            button b' = button b \<and>
            (type' (button b) \<noteq> ty \<longrightarrow> b' = b) \<and>
            (type' (button b) = ty \<and> code (button b) \<in> bits \<longrightarrow>
               disabled b' \<and>
               (\<not> disabled b \<longrightarrow>
                  Disable_irq (irq (gpio (button b))) \<in> set ops \<and>
                  (timer_debounce b \<noteq> 0 \<longrightarrow>
                     Del_timer_sync (gpio (button b)) \<in> set ops \<and> timer b' = None))) \<and>
            (type' (button b) = ty \<and> code (button b) \<notin> bits \<longrightarrow>
               \<not> disabled b' \<and>
               (disabled b \<longrightarrow> Enable_irq (irq (gpio (button b))) \<in> set ops))"
      unfolding Let_def d' o' apply_bits_nth [OF i] apply_bits_calls
      using m
      by (auto simp: gpio_keys_disable_button_def gpio_keys_enable_button_def del_timer_sync_def
          intro!: bexI [of _ "data ddata ! i"])
  qed
  then show ?thesis
    using c d r apply_bits_no_mutex [of irq "data ddata" ty bits]
      apply_bits_length [of irq "data ddata" ty bits]
    by (simp add: d' o')
qed

theorem store_applies_under_lock_witness:
  "gpio_keys_store_disabled_switches example_gpio_to_irq example_parselist True
     example_switches ''11'' 2 =
     (Inr 2,
      example_switches\<lparr>data :=
        [probed (switch_line 5 20 False), probed (switch_line 9 21 True),
         probed (switch_line 10 22 True), (probed (switch_line 11 23 True))\<lparr>disabled := True\<rparr>]\<rparr>,
      [Mutex_lock, Enable_irq 277, Disable_irq 279, Del_timer_sync 23, Mutex_unlock]) \<and>
   (\<exists>ops. [Mutex_lock, Enable_irq 277, Disable_irq 279, Del_timer_sync 23, Mutex_unlock] =
            [Mutex_lock] @ ops @ [Mutex_unlock] \<and>
          Mutex_lock \<notin> set ops \<and> Mutex_unlock \<notin> set ops)"
proof -
  have n: "get_n_events_by_type EV_SW = Inr 16"
    by (simp add: get_n_events_by_type_def input_consts)
  have p: "example_parselist ''11'' 16 = Inr {11}"
    by (simp add: example_parselist_def)
  have ok: "gpio_keys_store example_gpio_to_irq example_parselist True example_switches ''11'' 2 EV_SW =
     (Inr 2,
      example_switches\<lparr>data :=
        [probed (switch_line 5 20 False), probed (switch_line 9 21 True),
         probed (switch_line 10 22 True), (probed (switch_line 11 23 True))\<lparr>disabled := True\<rparr>]\<rparr>,
      [Mutex_lock, Enable_irq 277, Disable_irq 279, Del_timer_sync 23, Mutex_unlock])"
    by (simp add: gpio_keys_store_def gpio_keys_attr_store_helper_def get_n_events_by_type_def
        gpio_keys_disable_button_def gpio_keys_enable_button_def del_timer_sync_def
        example_defs input_consts)
  from store_applies_under_lock [OF n p ok] ok show ?thesis
    by (simp add: gpio_keys_store_disabled_switches_def)
qed

subsection \<open>The wake-enable attribute\<close>

lemma set_wakeup_length: "length (set_wakeup xs bits) = length xs"
  by (induction xs) auto

lemma set_wakeup_nth:
  "i < length xs \<Longrightarrow>
   set_wakeup xs bits ! i =
     (xs ! i)\<lparr>button := (button (xs ! i))
        \<lparr>wakeup := (if code (button (xs ! i)) \<in> bits then 1 else 0)\<rparr>\<rparr>"
proof (induction xs arbitrary: i)
  case Nil
  then show ?case by simp
next
  case (Cons x xs)
  then show ?case by (cases i) auto
qed

text \<open>
  Claim C9, as stated, fails: when the bitmap cannot be allocated the write returns
  \<open>-ENOMEM\<close>, not the byte count.
\<close>

theorem wakeup_enable_returns_enomem:
  "wakeup_enable example_parselist False example_keys ''115'' 3 = (Inl ENOMEM, example_keys)"
  by (simp add: wakeup_enable_def get_n_events_by_type_def input_consts)

text \<open>
  Claim C9, amended. A write to \<open>wakeup_keys\<close> whose bitmap cannot be allocated
  returns \<open>-ENOMEM\<close> and changes nothing. Every other write returns the byte count:
  if the text does not parse, nothing changes; if it parses, every configured line
  whose code is named has \<open>wakeup\<close> set to 1 and every other configured line has it
  set to 0, nothing else of any line changes, and named codes that no line carries
  have no effect.
\<close>

theorem wakeup_enable_sets_and_clears:
  "(\<not> alloc_ok \<longrightarrow> wakeup_enable parselist alloc_ok ddata buf count = (Inl ENOMEM, ddata)) \<and>
   (alloc_ok \<longrightarrow>
      fst (wakeup_enable parselist alloc_ok ddata buf count) = Inr count \<and>
      (\<forall>e. parselist buf KEY_CNT = Inl e \<longrightarrow>
         snd (wakeup_enable parselist alloc_ok ddata buf count) = ddata) \<and>
      (\<forall>bits. parselist buf KEY_CNT = Inr bits \<longrightarrow>
         enabled (snd (wakeup_enable parselist alloc_ok ddata buf count)) = enabled ddata \<and>
         length (data (snd (wakeup_enable parselist alloc_ok ddata buf count))) =
           length (data ddata) \<and>
         (\<forall>i < length (data ddata).
            data (snd (wakeup_enable parselist alloc_ok ddata buf count)) ! i =
              (data ddata ! i)\<lparr>button := (button (data ddata ! i))
                 \<lparr>wakeup := (if code (button (data ddata ! i)) \<in> bits then 1 else 0)\<rparr>\<rparr>)))"
  by (auto simp: wakeup_enable_def get_n_events_by_type_def set_wakeup_length set_wakeup_nth
      split: sum.splits)

theorem wakeup_enable_sets_and_clears_witness:
  "fst (wakeup_enable example_parselist True example_keys ''115'' 3) = Inr 3 \<and>
   wakeup (button (data (snd (wakeup_enable example_parselist True example_keys ''115'' 3)) ! 0)) = 1 \<and>
   wakeup (button (data (snd (wakeup_enable example_parselist True example_keys ''115'' 3)) ! 1)) = 0 \<and>
   wakeup_enable example_parselist True example_keys ''vol'' 3 = (Inr 3, example_keys)"
  using wakeup_enable_sets_and_clears [of True example_parselist example_keys "''115''" 3]
    wakeup_enable_sets_and_clears [of True example_parselist example_keys "''vol''" 3]
  by (simp add: wakeup_enable_def get_n_events_by_type_def example_defs input_consts)

subsection \<open>Deferred evaluation\<close>

lemma report_event_cases:
  "gpio_keys_report_event brd levels g bdata = (g', bdata', cs) \<Longrightarrow>
     (bdata' = bdata \<and> (\<forall>t c v. Input_event t c v \<notin> set cs)) \<or>
     (bdata', cs) = report_input bdata (logical_state levels (button bdata))"
  by (auto simp: gpio_keys_report_event_def homekey_session_def volkey_session_def Let_def
      split: if_splits prod.splits option.splits)

lemma report_input_abs:
  "type' (button bdata) = EV_ABS \<Longrightarrow>
   report_input bdata s =
     (bdata, (if s \<noteq> 0 then [Input_event EV_ABS (code (button bdata)) (value' (button bdata))]
              else []) @ [Input_sync])"
  by (simp add: report_input_def EV_ABS_def Let_def)

text \<open>
  Claim C10. For a line whose class is \<open>EV_ABS\<close>, a deferred evaluation leaves the
  line's runtime state, \<open>key_state\<close> included, as it was; every \<open>input_event\<close> call it
  makes has the class \<open>EV_ABS\<close>, the line's code and the line's configured value, and
  is made only when the logical state is not 0. When no emulation or session takes the
  line, the calls are exactly that event followed by \<open>input_sync\<close> for an active line,
  and \<open>input_sync\<close> alone for an inactive one.
\<close>

theorem abs_line_reports_only_when_active:
  assumes "type' (button bdata) = EV_ABS"
    and "gpio_keys_report_event brd levels g bdata = (g', bdata', cs)"
  shows "bdata' = bdata \<and>
         (\<forall>t c v. Input_event t c v \<in> set cs \<longrightarrow>
            logical_state levels (button bdata) \<noteq> 0 \<and> t = EV_ABS \<and>
            c = code (button bdata) \<and> v = value' (button bdata)) \<and>
         (\<not> emulator_volup g \<and> \<not> emulator_voldown g \<and> \<not> remap_gate g \<longrightarrow>
            cs = (if logical_state levels (button bdata) \<noteq> 0
                  then [Input_event EV_ABS (code (button bdata)) (value' (button bdata))]
                  else []) @ [Input_sync])"
proof -
  from report_event_cases [OF assms(2)]
  have "bdata' = bdata \<and>
         (\<forall>t c v. Input_event t c v \<in> set cs \<longrightarrow>
            logical_state levels (button bdata) \<noteq> 0 \<and> t = EV_ABS \<and>
            c = code (button bdata) \<and> v = value' (button bdata))"
    by (auto simp: report_input_abs [OF assms(1)] split: if_splits)
  moreover have "\<not> emulator_volup g \<and> \<not> emulator_voldown g \<and> \<not> remap_gate g \<longrightarrow>
            cs = (if logical_state levels (button bdata) \<noteq> 0
                  then [Input_event EV_ABS (code (button bdata)) (value' (button bdata))]
                  else []) @ [Input_sync]"
    using assms(2) by (auto simp: gpio_keys_report_event_def Let_def report_input_abs [OF assms(1)])
  ultimately show ?thesis
    by blast
qed

theorem abs_line_reports_only_when_active_witness:
  "gpio_keys_report_event janice all_high idle_statics (data example_keys ! 3) =
     (idle_statics, data example_keys ! 3, [Input_event EV_ABS 25 7, Input_sync]) \<and>
   gpio_keys_report_event janice all_low idle_statics (data example_keys ! 3) =
     (idle_statics, data example_keys ! 3, [Input_sync])"
proof -
  have t: "type' (button (data example_keys ! 3)) = EV_ABS"
    by (simp add: example_defs)
  have h: "gpio_keys_report_event janice all_high idle_statics (data example_keys ! 3) =
     (idle_statics, data example_keys ! 3, [Input_event EV_ABS 25 7, Input_sync])"
    by (simp add: session_defs example_defs input_consts)
  have l: "gpio_keys_report_event janice all_low idle_statics (data example_keys ! 3) =
     (idle_statics, data example_keys ! 3, [Input_sync])"
    by (simp add: session_defs example_defs input_consts)
  from abs_line_reports_only_when_active [OF t h] abs_line_reports_only_when_active [OF t l] h l
  show ?thesis
    by simp
qed

text \<open>
  Claim C7, as stated, fails in two ways. First, with every remap feature switched
  off, an edge on the volume-up line is not reported through \<open>input_event\<close> when
  \<open>emulator_volup\<close> is set; the power key is emulated instead. Second, the conditions
  under which the function enters a session mix the flags and policies of the two
  features. With only the volume feature switched on, the screen on, and the home
  policy not restricted to suspend, a press of the home key, whose feature flag is
  off, is swallowed and queues the long-press work; and a press of volume-up is
  swallowed too, though the volume policy is restricted to suspend and the screen is
  on.
\<close>

theorem bypass_fails_with_gating_unmet:
  "gpio_keys_report_event janice volup_held (idle_statics\<lparr>emulator_volup := True\<rparr>)
     (data example_keys ! 0) =
   (idle_statics\<lparr>emulator_volup := True\<rparr>, data example_keys ! 0,
    [Ponkey_emulator (int KEY_POWER) 1]) \<and>
   homekey_press_play
     (idle_statics\<lparr>volkey_press_skip_track := 1, homekey_press_play_in_suspend_only := 0\<rparr>) = 0 \<and>
   gpio_keys_report_event janice home_held
     (idle_statics\<lparr>volkey_press_skip_track := 1, homekey_press_play_in_suspend_only := 0\<rparr>)
     (data example_keys ! 2) =
   (idle_statics\<lparr>volkey_press_skip_track := 1, homekey_press_play_in_suspend_only := 0,
                 homekey_press_play_work := Some 300, homekey_press_play_is_ongoing := True\<rparr>,
    data example_keys ! 2, []) \<and>
   volkey_skip_tracks_in_suspend_only
     (idle_statics\<lparr>volkey_press_skip_track := 1, homekey_press_play_in_suspend_only := 0\<rparr>) = 1 \<and>
   is_early_suspend
     (idle_statics\<lparr>volkey_press_skip_track := 1, homekey_press_play_in_suspend_only := 0\<rparr>) = False \<and>
   gpio_keys_report_event janice volup_held
     (idle_statics\<lparr>volkey_press_skip_track := 1, homekey_press_play_in_suspend_only := 0\<rparr>)
     (data example_keys ! 0) =
   (idle_statics\<lparr>volkey_press_skip_track := 1, homekey_press_play_in_suspend_only := 0,
                 volkey_skip_track_work := Some 300, volkey_skip_track_is_ongoing := True,
                 volkey_emulate_key_nextsong := True\<rparr>,
    data example_keys ! 0, [])"
  by (simp add: session_defs example_defs input_consts)

text \<open>
  Claim C7, amended. Take an evaluation of a line that the power-key emulation does
  not take (\<open>emulator_volup\<close> takes the volume-up line; \<open>emulator_voldown\<close>, when
  \<open>emulator_volup\<close> is off, takes the volume-down line). The sessions are bypassed
  whenever both feature flags are off, or \<open>is_suspend\<close> is set, or the screen is on
  while both features are restricted to suspend, or the line's own feature is off and
  restricted to suspend. Then the static variables stay as they were, so no long-press
  work is queued and no emulation is started, and the edge is reported at once by the
  ordinary report with the line's own code.
\<close>

theorem closed_gate_bypasses_session:
  assumes "\<not> (emulator_volup g \<and> gpio (button bdata) = VOL_UP_JANICE_R0_0 brd)"
    and "\<not> (\<not> emulator_volup g \<and> emulator_voldown g \<and>
             gpio (button bdata) = VOL_DOWN_JANICE_R0_0 brd)"
    and "volkey_press_skip_track g = 0 \<and> homekey_press_play g = 0 \<or>
         is_suspend g \<noteq> 0 \<or>
         \<not> is_early_suspend g \<and> volkey_skip_tracks_in_suspend_only g \<noteq> 0 \<and>
           homekey_press_play_in_suspend_only g \<noteq> 0 \<or>
         (gpio (button bdata) = HOME_KEY_JANICE_R0_0 brd \<longrightarrow>
            homekey_press_play g = 0 \<and> homekey_press_play_in_suspend_only g \<noteq> 0) \<and>
         (gpio (button bdata) = VOL_UP_JANICE_R0_0 brd \<or>
          gpio (button bdata) = VOL_DOWN_JANICE_R0_0 brd \<longrightarrow>
            volkey_press_skip_track g = 0 \<and> volkey_skip_tracks_in_suspend_only g \<noteq> 0)"
  shows "gpio_keys_report_event brd levels g bdata =
           (g, fst (report_input bdata (logical_state levels (button bdata))),
               snd (report_input bdata (logical_state levels (button bdata)))) \<and>
         (type' (button bdata) = EV_KEY \<longrightarrow>
            report_input bdata (logical_state levels (button bdata)) =
              (bdata\<lparr>key_state := (logical_state levels (button bdata) \<noteq> 0)\<rparr>,
               [Input_event EV_KEY (code (button bdata))
                  (if logical_state levels (button bdata) \<noteq> 0 then 1 else 0),
                Input_sync]))"
proof -
  have "\<not> remap_gate g \<or>
         (gpio (button bdata) = HOME_KEY_JANICE_R0_0 brd \<longrightarrow> \<not> homekey_gate g) \<and>
         (gpio (button bdata) = VOL_UP_JANICE_R0_0 brd \<or>
          gpio (button bdata) = VOL_DOWN_JANICE_R0_0 brd \<longrightarrow> \<not> volkey_gate g)"
    using assms(3) by (auto simp: remap_gate_def homekey_gate_def volkey_gate_def)
  then have "gpio_keys_report_event brd levels g bdata =
           (g, fst (report_input bdata (logical_state levels (button bdata))),
               snd (report_input bdata (logical_state levels (button bdata))))"
    using assms(1,2) by (auto simp: gpio_keys_report_event_def Let_def split: prod.splits)
  moreover have "type' (button bdata) = EV_KEY \<longrightarrow>
            report_input bdata (logical_state levels (button bdata)) =
              (bdata\<lparr>key_state := (logical_state levels (button bdata) \<noteq> 0)\<rparr>,
               [Input_event EV_KEY (code (button bdata))
                  (if logical_state levels (button bdata) \<noteq> 0 then 1 else 0),
                Input_sync])"
    by (simp add: report_input_def Let_def input_consts)
  ultimately show ?thesis
    by (rule conjI)
qed

text \<open>
  The witnesses: with both features off, a press and a release of volume-up are
  reported as such; and with only the volume feature on and both features restricted
  to suspend, a press of the home key is reported although the screen is off.
\<close>

theorem closed_gate_bypasses_session_witness:
  "gpio_keys_report_event janice volup_held idle_statics (data example_keys ! 0) =
     (idle_statics, (data example_keys ! 0)\<lparr>key_state := True\<rparr>,
      [Input_event EV_KEY KEY_VOLUMEUP 1, Input_sync]) \<and>
   gpio_keys_report_event janice all_high idle_statics (data example_keys ! 0) =
     (idle_statics, (data example_keys ! 0)\<lparr>key_state := False\<rparr>,
      [Input_event EV_KEY KEY_VOLUMEUP 0, Input_sync]) \<and>
   gpio_keys_report_event janice home_held
     (idle_statics\<lparr>volkey_press_skip_track := 1, is_early_suspend := True\<rparr>)
     (data example_keys ! 2) =
     (idle_statics\<lparr>volkey_press_skip_track := 1, is_early_suspend := True\<rparr>,
      (data example_keys ! 2)\<lparr>key_state := True\<rparr>,
      [Input_event EV_KEY KEY_HOME 1, Input_sync])"
  using closed_gate_bypasses_session [of idle_statics "data example_keys ! 0" janice volup_held]
    closed_gate_bypasses_session [of idle_statics "data example_keys ! 0" janice all_high]
    closed_gate_bypasses_session [of "idle_statics\<lparr>volkey_press_skip_track := 1,
      is_early_suspend := True\<rparr>" "data example_keys ! 2" janice home_held]
  by (simp add: session_defs example_defs input_consts)

subsection \<open>The volume session\<close>

text \<open>
  Claim C8. Whenever the volume session is entered for an evaluation of one of the two
  volume lines, whatever the levels of the lines and whether the evaluation finds a
  press or a release, the selector \<open>volkey_emulate_key_nextsong\<close> afterwards tells
  whether the evaluated line is the volume-up line. The emulation work reads the
  selector when it runs: it pulses an up-direction code (volume-up or next-track) if
  the selector is set and a down-direction code (volume-down or previous-track) if not.
  So the direction is that of the line evaluated last, not of a line held at that time.
\<close>

theorem selector_follows_last_evaluated_line:
  assumes "\<not> emulator_volup g" and "\<not> emulator_voldown g" and "remap_gate g" and "volkey_gate g"
    and "gpio (button bdata) = VOL_UP_JANICE_R0_0 brd \<or>
         gpio (button bdata) = VOL_DOWN_JANICE_R0_0 brd"
    and "gpio (button bdata) \<noteq> HOME_KEY_JANICE_R0_0 brd"
    and "gpio_keys_report_event brd levels g bdata = (g', bdata', cs)"
  shows "volkey_emulate_key_nextsong g' = (gpio (button bdata) = VOL_UP_JANICE_R0_0 brd) \<and>
         snd (volkey_do_volume_key_press_fn h) =
           [Ponkey_emulator (volkey_key h) 1, Mdelay (volkey_do_volume_key_press_delay_ms h),
            Ponkey_emulator (volkey_key h) 0, Unmap_keys] \<and>
         (volkey_emulate_key_nextsong h \<longrightarrow>
            volkey_key h = int KEY_VOLUMEUP \<or> volkey_key h = int KEY_NEXTSONG) \<and>
         (\<not> volkey_emulate_key_nextsong h \<longrightarrow>
            volkey_key h = int KEY_VOLUMEDOWN \<or> volkey_key h = int KEY_PREVIOUSSONG)"
proof -
  have "volkey_emulate_key_nextsong g' = (gpio (button bdata) = VOL_UP_JANICE_R0_0 brd)"
    using assms
    by (auto simp: gpio_keys_report_event_def Let_def volkey_session_def
        split: prod.splits if_splits)
  then show ?thesis
    by (simp add: volkey_do_volume_key_press_fn_def volkey_key_def)
qed

text \<open>
  In the witness volume-up is pressed and stays held; volume-down is then pressed and
  released. The pulse is volume-down, the line that moved last, though volume-up is
  the line held at the release.
\<close>

theorem selector_follows_last_evaluated_line_witness:
  "volkey_emulate_key_nextsong
     (fst (gpio_keys_report_event janice volup_held remap_statics (data example_keys ! 1))) = False \<and>
   snd (snd (run janice example_sscanf
     [Evaluate 0 volup_held, Evaluate 1 both_vol_held, Evaluate 1 volup_held,
      Volume_key_press_work] (remap_statics, example_keys, []))) =
   [Remap_power_key (int KEY_POWER) (int KEY_VOLUMEDOWN),
    Ponkey_emulator (int KEY_VOLUMEDOWN) 1, Mdelay 101,
    Ponkey_emulator (int KEY_VOLUMEDOWN) 0, Unmap_keys]"
proof -
  have e: "gpio_keys_report_event janice volup_held remap_statics (data example_keys ! 1) =
      (fst (gpio_keys_report_event janice volup_held remap_statics (data example_keys ! 1)),
       fst (snd (gpio_keys_report_event janice volup_held remap_statics (data example_keys ! 1))),
       snd (snd (gpio_keys_report_event janice volup_held remap_statics (data example_keys ! 1))))"
    by simp
  have "volkey_emulate_key_nextsong
     (fst (gpio_keys_report_event janice volup_held remap_statics (data example_keys ! 1))) =
     (gpio (button (data example_keys ! 1)) = VOL_UP_JANICE_R0_0 janice)"
    using selector_follows_last_evaluated_line [OF _ _ _ _ _ _ e]
    by (simp add: session_defs example_defs input_consts)
  then show ?thesis
    by (simp add: session_defs example_defs input_consts)
qed







subsection \<open>Pulses in flight\<close>

text \<open>
  Claim C3, as stated, fails: the three paths do not exclude one another. After a short
  press of volume-up its pulse is queued and marked as running; a short press of home
  is then accepted as well, and so is a write of \<open>press\<close> to the emulator attribute.
  The three work items are queued together, and running them issues three press and
  release pairs.
\<close>

theorem pulses_of_different_paths_overlap:
  "volkey_do_volume_key_press_is_ongoing (fst (run janice example_sscanf
      [Emulator_write ''emu_keycode=115'', Evaluate 0 volup_held, Evaluate 0 all_high]
      (remap_statics, example_keys, []))) \<and>
   volkey_do_volume_key_press_work (fst (run janice example_sscanf
      [Emulator_write ''emu_keycode=115'', Evaluate 0 volup_held, Evaluate 0 all_high,
       Evaluate 2 home_held, Evaluate 2 all_high, Emulator_write ''press'']
      (remap_statics, example_keys, []))) \<and>
   homekey_do_press_play_work (fst (run janice example_sscanf
      [Emulator_write ''emu_keycode=115'', Evaluate 0 volup_held, Evaluate 0 all_high,
       Evaluate 2 home_held, Evaluate 2 all_high, Emulator_write ''press'']
      (remap_statics, example_keys, []))) \<and>
   gpio_keys_emulator_work (fst (run janice example_sscanf
      [Emulator_write ''emu_keycode=115'', Evaluate 0 volup_held, Evaluate 0 all_high,
       Evaluate 2 home_held, Evaluate 2 all_high, Emulator_write ''press'']
      (remap_statics, example_keys, []))) \<and>
   snd (snd (run janice example_sscanf
      [Emulator_write ''emu_keycode=115'', Evaluate 0 volup_held, Evaluate 0 all_high,
       Evaluate 2 home_held, Evaluate 2 all_high, Emulator_write ''press'',
       Volume_key_press_work, Press_play_work, Emulator_work]
      (remap_statics, example_keys, []))) =
     [Remap_power_key 116 115, Remap_power_key 116 91,
      Ponkey_emulator 115 1, Mdelay 101, Ponkey_emulator 115 0, Unmap_keys,
      Ponkey_emulator 91 1, Mdelay 101, Ponkey_emulator 91 0, Unmap_keys,
      Input_event 1 115 1, Input_sync, Mdelay 100, Input_event 1 115 0, Input_sync]"
  by (simp add: session_defs example_defs input_consts gpio_keys_emulator_store_def
      gpio_keys_emulator_thread_def gpio_keys_emulator_def gpio_keys_setstate_def
      strstr_def c_string_def)

text \<open>
  Claim C3, amended. Each path admits one pulse of its own at a time. While
  \<open>volkey_do_volume_key_press_is_ongoing\<close> is set, a release on a volume line in the
  session makes no call and queues nothing: only the direction selector is written.
  While \<open>homekey_do_press_play_is_ongoing\<close> is set, a release on the home line in the
  session changes nothing at all. While \<open>emu_working\<close> is set, a write to the emulator
  attribute that does not set the key code changes nothing. Nothing is queued for a
  dropped request; on the volume path the selector write is all that remains of it,
  and the work item in flight reads the selector when it runs.
\<close>

theorem pulse_dropped_while_own_path_busy:
  "(volkey_do_volume_key_press_is_ongoing g \<and> \<not> emulator_volup g \<and> \<not> emulator_voldown g \<and>
    remap_gate g \<and> volkey_gate g \<and>
    (gpio (button bdata) = VOL_UP_JANICE_R0_0 brd \<or>
     gpio (button bdata) = VOL_DOWN_JANICE_R0_0 brd) \<and>
    gpio (button bdata) \<noteq> HOME_KEY_JANICE_R0_0 brd \<and> logical_state levels (button bdata) = 0 \<longrightarrow>
      gpio_keys_report_event brd levels g bdata =
        (g\<lparr>volkey_emulate_key_nextsong := (gpio (button bdata) = VOL_UP_JANICE_R0_0 brd)\<rparr>,
         bdata, [])) \<and>
   (homekey_do_press_play_is_ongoing g \<and> \<not> emulator_volup g \<and> \<not> emulator_voldown g \<and>
    remap_gate g \<and> homekey_gate g \<and> gpio (button bdata) = HOME_KEY_JANICE_R0_0 brd \<and>
    logical_state levels (button bdata) = 0 \<longrightarrow>
      gpio_keys_report_event brd levels g bdata = (g, bdata, [])) \<and>
   (emu_working g \<and> take 12 buf \<noteq> ''emu_keycode='' \<longrightarrow>
      gpio_keys_emulator_store sc g buf count = (count, g))"
  by (simp add: gpio_keys_report_event_def volkey_session_def homekey_session_def Let_def
      gpio_keys_emulator_store_def)

theorem pulse_dropped_while_own_path_busy_witness:
  "gpio_keys_report_event janice all_high
     (remap_statics\<lparr>volkey_do_volume_key_press_is_ongoing := True,
                    volkey_do_volume_key_press_work := True\<rparr>) (data example_keys ! 0) =
     (remap_statics\<lparr>volkey_do_volume_key_press_is_ongoing := True,
                    volkey_do_volume_key_press_work := True,
                    volkey_emulate_key_nextsong := True\<rparr>, data example_keys ! 0, []) \<and>
   gpio_keys_report_event janice all_high
     (remap_statics\<lparr>homekey_do_press_play_is_ongoing := True,
                    homekey_do_press_play_work := True\<rparr>) (data example_keys ! 2) =
     (remap_statics\<lparr>homekey_do_press_play_is_ongoing := True,
                    homekey_do_press_play_work := True\<rparr>, data example_keys ! 2, []) \<and>
   gpio_keys_emulator_store example_sscanf (idle_statics\<lparr>emu_working := True, emu_keycode := 115\<rparr>)
     ''press'' 5 = (5, idle_statics\<lparr>emu_working := True, emu_keycode := 115\<rparr>)"
  using pulse_dropped_while_own_path_busy [where g = "remap_statics\<lparr>volkey_do_volume_key_press_is_ongoing := True,
                    volkey_do_volume_key_press_work := True\<rparr>" and bdata = "data example_keys ! 0"
      and brd = janice and levels = all_high]
    pulse_dropped_while_own_path_busy [where g = "remap_statics\<lparr>homekey_do_press_play_is_ongoing := True,
                    homekey_do_press_play_work := True\<rparr>" and bdata = "data example_keys ! 2"
      and brd = janice and levels = all_high]
    pulse_dropped_while_own_path_busy [where g = "idle_statics\<lparr>emu_working := True, emu_keycode := 115\<rparr>"
      and buf = "''press''" and sc = example_sscanf and count = 5]
  by (simp add: session_defs example_defs input_consts)

subsection \<open>Debouncing\<close>

lemma two_power_half:
  "0 < bits \<Longrightarrow> (2::int) ^ bits = 2 ^ (bits - 1) + 2 ^ (bits - 1)"
  by (cases bits) simp_all

lemma jiffies_difference:
  "(int ((t + e) mod 2 ^ bits) - int ((t + d) mod 2 ^ bits)) mod 2 ^ bits =
   (int e - int d) mod 2 ^ bits"
  by (simp add: of_nat_mod mod_diff_eq)

lemma not_due_yet:
  assumes "e < d" and "d \<le> 2 ^ (bits - 1)" and "0 < bits"
  shows "\<not> time_after_eq bits ((t + e) mod 2 ^ bits) ((t + d) mod 2 ^ bits)"
proof -
  have "int d \<le> int (2 ^ (bits - 1))"
    using assms(2) by (rule of_nat_mono)
  then have dH: "int d \<le> 2 ^ (bits - 1)"
    by simp
  have "(int e - int d) mod 2 ^ bits = (int e - int d + 2 ^ bits) mod 2 ^ bits"
    by simp
  also have "\<dots> = int e - int d + 2 ^ bits"
  proof (rule mod_pos_pos_trivial)
    show "0 \<le> int e - int d + 2 ^ bits"
      using dH two_power_half [OF assms(3)] by linarith
    show "int e - int d + 2 ^ bits < 2 ^ bits"
      using assms(1) by simp
  qed
  finally have "(int e - int d) mod 2 ^ bits = int e - int d + 2 ^ bits" .
  then have "\<not> (int e - int d) mod 2 ^ bits < 2 ^ (bits - 1)"
    using dH two_power_half [OF assms(3)] by linarith
  then show ?thesis
    unfolding time_after_eq_def jiffies_difference .
qed

lemma due:
  assumes "d \<le> e" and "e < d + 2 ^ (bits - 1)" and "0 < bits"
  shows "time_after_eq bits ((t + e) mod 2 ^ bits) ((t + d) mod 2 ^ bits)"
proof -
  have "int e < int (d + 2 ^ (bits - 1))"
    using assms(2) by (simp only: of_nat_less_iff)
  then have b: "int e - int d < 2 ^ (bits - 1)"
    by simp
  have "(int e - int d) mod 2 ^ bits = int e - int d"
  proof (rule mod_pos_pos_trivial)
    show "0 \<le> int e - int d"
      using assms(1) by simp
    show "int e - int d < 2 ^ bits"
      using b two_power_half [OF assms(3)] zero_le_power [of "2::int" "bits - 1"]
      by linarith
  qed
  then have "(int e - int d) mod 2 ^ bits < 2 ^ (bits - 1)"
    using b by simp
  then show ?thesis
    unfolding time_after_eq_def jiffies_difference .
qed

lemma run_timer_not_due:
  assumes "t0 \<le> t" and "t < t0 + d" and "d \<le> 2 ^ (bits - 1)" and "0 < bits"
    and "timer bdata = Some ((t0 + d) mod 2 ^ bits)"
  shows "run_timer bits (t mod 2 ^ bits) bdata = bdata"
proof -
  have "\<not> time_after_eq bits ((t0 + (t - t0)) mod 2 ^ bits) ((t0 + d) mod 2 ^ bits)"
    using assms(1,2,3,4) by (intro not_due_yet) simp_all
  then show ?thesis
    using assms(1,5) by (simp add: run_timer_def)
qed

lemma run_timer_due:
  assumes "t0 + d \<le> t" and "t < t0 + d + 2 ^ (bits - 1)" and "0 < bits"
    and "timer bdata = Some ((t0 + d) mod 2 ^ bits)"
  shows "run_timer bits (t mod 2 ^ bits) bdata = bdata\<lparr>timer := None, work := True\<rparr>"
proof -
  have "time_after_eq bits ((t0 + (t - t0)) mod 2 ^ bits) ((t0 + d) mod 2 ^ bits)"
    using assms(1,2,3) by (intro due) simp_all
  then show ?thesis
    using assms(1,4) by (simp add: run_timer_def gpio_keys_timer_def schedule_work_def)
qed

lemma isr_arms:
  "timer_debounce bdata \<noteq> 0 \<Longrightarrow>
   gpio_keys_isr bits irq msecs_to_jiffies (t mod 2 ^ bits) (irq (gpio (button bdata))) bdata =
     Inr (bdata\<lparr>timer :=
       Some ((t + msecs_to_jiffies (nat (timer_debounce bdata mod 2 ^ 32))) mod 2 ^ bits)\<rparr>)"
  by (simp add: gpio_keys_isr_def mod_timer_def mod_add_left_eq)

lemma edges_burst:
  assumes "timer_debounce bdata \<noteq> 0"
    and "d = msecs_to_jiffies (nat (timer_debounce bdata mod 2 ^ 32))"
    and "0 < bits" and "d \<le> 2 ^ (bits - 1)"
    and "ts \<noteq> []" and "within_window d ts"
    and "timer bdata = None \<or>
         (\<exists>t0. t0 \<le> hd ts \<and> hd ts < t0 + d \<and> timer bdata = Some ((t0 + d) mod 2 ^ bits))"
  shows "edges bits irq msecs_to_jiffies ts bdata =
           Inr (bdata\<lparr>timer := Some ((last ts + d) mod 2 ^ bits)\<rparr>)"
  using assms
proof (induction ts arbitrary: bdata)
  case Nil
  then show ?case by simp
next
  case (Cons t ts)
  have rt: "run_timer bits (t mod 2 ^ bits) bdata = bdata"
  proof (cases "timer bdata")
    case None
    then show ?thesis by (simp add: run_timer_def)
  next
    case (Some x)
    with Cons.prems(7) obtain t0 where "t0 \<le> t" "t < t0 + d"
      "timer bdata = Some ((t0 + d) mod 2 ^ bits)"
      by auto
    then show ?thesis
      using Cons.prems(3,4) by (intro run_timer_not_due [of t0 t d]) simp_all
  qed
  let ?b = "bdata\<lparr>timer := Some ((t + d) mod 2 ^ bits)\<rparr>"
  have isr: "gpio_keys_isr bits irq msecs_to_jiffies (t mod 2 ^ bits) (irq (gpio (button bdata)))
      bdata = Inr ?b"
    using isr_arms [OF Cons.prems(1)] Cons.prems(2) by simp
  show ?case
  proof (cases ts)
    case Nil
    then show ?thesis
      using rt isr by simp
  next
    case (Cons t' ts')
    have "edges bits irq msecs_to_jiffies ts ?b =
        Inr (?b\<lparr>timer := Some ((last ts + d) mod 2 ^ bits)\<rparr>)"
    proof (rule Cons.IH)
      show "timer_debounce ?b \<noteq> 0" using Cons.prems(1) by simp
      show "d = msecs_to_jiffies (nat (timer_debounce ?b mod 2 ^ 32))"
        using Cons.prems(2) by simp
      show "0 < bits" by (rule Cons.prems(3))
      show "d \<le> 2 ^ (bits - 1)" by (rule Cons.prems(4))
      show "ts \<noteq> []" using Cons by simp
      show "within_window d ts" using Cons.prems(6) Cons by simp
      show "timer ?b = None \<or>
         (\<exists>t0. t0 \<le> hd ts \<and> hd ts < t0 + d \<and> timer ?b = Some ((t0 + d) mod 2 ^ bits))"
        using Cons.prems(6) Cons by auto
    qed
    then show ?thesis
      using rt isr Cons by simp
  qed
qed

lemma report_event_keeps_pending:
  "gpio_keys_report_event brd levels g bdata = (g', bdata', cs) \<Longrightarrow>
     timer bdata' = timer bdata \<and> work bdata' = work bdata"
  by (simp add: gpio_keys_report_event_def homekey_session_def volkey_session_def
      report_input_def Let_def split: if_splits prod.splits option.splits) auto

text \<open>
  Claim C6. Let \<open>d\<close> be the line's software debounce interval in jiffies, at most
  half the range of the counter (\<open>msecs_to_jiffies\<close> never returns more). On a line
  without one, the interrupt handler enqueues the line's work directly. On a line with
  one, the handler sets the line's timer to expire \<open>d\<close> after the value it reads from
  \<open>jiffies\<close>, in the wrapping arithmetic of an unsigned long, replacing whatever the
  timer held. So for a burst of edges on an idle line, each coming less than \<open>d\<close>
  ticks after the edge before it, the burst leaves a single pending timer, due \<open>d\<close>
  ticks after the last edge, and no work enqueued, also when the counter wraps during
  the burst; until then neither the timer nor the worker does anything. When the
  timer is run at or after that tick (and before the counter has gone half round) it
  enqueues the work once, the worker runs \<open>gpio_keys_report_event\<close> once, and after
  that nothing is pending: a later timer run or worker run does nothing. The
  evaluation reads the level that the GPIO has when the worker runs, xor the polarity:
  the handler is not given the level at all. For a key that no session takes, the
  reported value is that logical state.
\<close>

theorem debounce_collapses_burst:
  assumes d: "d = msecs_to_jiffies (nat (timer_debounce bdata mod 2 ^ 32))"
    and bits: "0 < bits" and half: "d \<le> 2 ^ (bits - 1)"
    and b1: "b1 = bdata\<lparr>timer := Some ((last ts + d) mod 2 ^ bits)\<rparr>"
  shows
  "(timer_debounce bdata = 0 \<longrightarrow>
      gpio_keys_isr bits irq msecs_to_jiffies j (irq (gpio (button bdata))) bdata =
        Inr (bdata\<lparr>work := True\<rparr>)) \<and>
   (timer_debounce bdata \<noteq> 0 \<longrightarrow>
      gpio_keys_isr bits irq msecs_to_jiffies j (irq (gpio (button bdata))) bdata =
        Inr (bdata\<lparr>timer := Some ((j + d) mod 2 ^ bits)\<rparr>)) \<and>
   (timer_debounce bdata \<noteq> 0 \<and> timer bdata = None \<and> \<not> work bdata \<and> ts \<noteq> [] \<and>
    within_window d ts \<and> last ts + d \<le> now \<and> now < last ts + d + 2 ^ (bits - 1) \<longrightarrow>
      edges bits irq msecs_to_jiffies ts bdata = Inr b1 \<and>
      (\<forall>early. last ts \<le> early \<and> early < last ts + d \<longrightarrow>
         run_timer bits (early mod 2 ^ bits) b1 = b1 \<and>
         run_work brd levels g b1 = (g, b1, [])) \<and>
      run_timer bits (now mod 2 ^ bits) b1 = bdata\<lparr>timer := None, work := True\<rparr> \<and>
      run_work brd levels g (bdata\<lparr>timer := None, work := True\<rparr>) =
        gpio_keys_report_event brd levels g (bdata\<lparr>timer := None, work := False\<rparr>) \<and>
      (\<forall>g' bdata' cs.
         run_work brd levels g (bdata\<lparr>timer := None, work := True\<rparr>) = (g', bdata', cs) \<longrightarrow>
           timer bdata' = None \<and> \<not> work bdata' \<and>
           run_timer bits later bdata' = bdata' \<and>
           run_work brd levels' g' bdata' = (g', bdata', [])) \<and>
      (\<not> emulator_volup g \<and> \<not> emulator_voldown g \<and> \<not> remap_gate g \<and>
       type' (button bdata) = EV_KEY \<longrightarrow>
         snd (snd (run_work brd levels g (bdata\<lparr>timer := None, work := True\<rparr>))) =
           [Input_event EV_KEY (code (button bdata))
              (if (if levels (gpio (button bdata)) \<noteq> 0 then 1 else 0)
                    XOR active_low (button bdata) \<noteq> 0
               then 1 else 0),
            Input_sync]))"
proof (intro conjI impI)
  show "gpio_keys_isr bits irq msecs_to_jiffies j (irq (gpio (button bdata))) bdata =
        Inr (bdata\<lparr>work := True\<rparr>)" if "timer_debounce bdata = 0"
    using that by (simp add: gpio_keys_isr_def schedule_work_def)
  show "gpio_keys_isr bits irq msecs_to_jiffies j (irq (gpio (button bdata))) bdata =
        Inr (bdata\<lparr>timer := Some ((j + d) mod 2 ^ bits)\<rparr>)" if "timer_debounce bdata \<noteq> 0"
    using that d by (simp add: gpio_keys_isr_def mod_timer_def)
next
  assume a: "timer_debounce bdata \<noteq> 0 \<and> timer bdata = None \<and> \<not> work bdata \<and> ts \<noteq> [] \<and>
    within_window d ts \<and> last ts + d \<le> now \<and> now < last ts + d + 2 ^ (bits - 1)"
  have t1: "timer b1 = Some ((last ts + d) mod 2 ^ bits)" and w1: "\<not> work b1"
    using a b1 by simp_all
  show "edges bits irq msecs_to_jiffies ts bdata = Inr b1"
    unfolding b1 using a d bits half by (intro edges_burst) simp_all
  show "\<forall>early. last ts \<le> early \<and> early < last ts + d \<longrightarrow>
         run_timer bits (early mod 2 ^ bits) b1 = b1 \<and>
         run_work brd levels g b1 = (g, b1, [])"
    using run_timer_not_due [OF _ _ half bits t1] w1 by (simp add: run_work_def)
  have "run_timer bits (now mod 2 ^ bits) b1 = b1\<lparr>timer := None, work := True\<rparr>"
    using a by (intro run_timer_due [OF _ _ bits t1]) simp_all
  then show "run_timer bits (now mod 2 ^ bits) b1 = bdata\<lparr>timer := None, work := True\<rparr>"
    by (simp add: b1)
  show "run_work brd levels g (bdata\<lparr>timer := None, work := True\<rparr>) =
        gpio_keys_report_event brd levels g (bdata\<lparr>timer := None, work := False\<rparr>)"
    by (simp add: run_work_def gpio_keys_work_func_def)
  show "\<forall>g' bdata' cs.
         run_work brd levels g (bdata\<lparr>timer := None, work := True\<rparr>) = (g', bdata', cs) \<longrightarrow>
           timer bdata' = None \<and> \<not> work bdata' \<and>
           run_timer bits later bdata' = bdata' \<and>
           run_work brd levels' g' bdata' = (g', bdata', [])"
  proof (intro allI impI)
    fix g' bdata' cs
    assume "run_work brd levels g (bdata\<lparr>timer := None, work := True\<rparr>) = (g', bdata', cs)"
    then have "gpio_keys_report_event brd levels g (bdata\<lparr>timer := None, work := False\<rparr>) =
        (g', bdata', cs)"
      by (simp add: run_work_def gpio_keys_work_func_def)
    from report_event_keeps_pending [OF this]
    show "timer bdata' = None \<and> \<not> work bdata' \<and>
           run_timer bits later bdata' = bdata' \<and>
           run_work brd levels' g' bdata' = (g', bdata', [])"
      by (simp add: run_timer_def run_work_def)
  qed
next
  assume "timer_debounce bdata \<noteq> 0 \<and> timer bdata = None \<and> \<not> work bdata \<and> ts \<noteq> [] \<and>
    within_window d ts \<and> last ts + d \<le> now \<and> now < last ts + d + 2 ^ (bits - 1)"
    and "\<not> emulator_volup g \<and> \<not> emulator_voldown g \<and> \<not> remap_gate g \<and>
       type' (button bdata) = EV_KEY"
  then show "snd (snd (run_work brd levels g (bdata\<lparr>timer := None, work := True\<rparr>))) =
           [Input_event EV_KEY (code (button bdata))
              (if (if levels (gpio (button bdata)) \<noteq> 0 then 1 else 0)
                    XOR active_low (button bdata) \<noteq> 0
               then 1 else 0),
            Input_sync]"
    by (simp add: run_work_def gpio_keys_work_func_def gpio_keys_report_event_def
        report_input_def logical_state_def Let_def input_consts)
qed

text \<open>
  In the witness a long has 32 bits and the volume-up key has a software debounce of
  10 ms. Four edges come at the ticks 4294967290, 4294967294, 4294967299 and
  4294967303, so the counter wraps to 0 during the burst. They leave one timer, due
  when the counter holds 17, and it fires then; the key is held when the edges come
  and released when the worker runs, and the one report is a release.
\<close>

theorem debounce_collapses_burst_witness:
  "edges 32 example_gpio_to_irq example_msecs_to_jiffies
     [4294967290, 4294967294, 4294967299, 4294967303]
     ((data example_keys ! 0)\<lparr>timer_debounce := 10\<rparr>) =
     Inr ((data example_keys ! 0)\<lparr>timer_debounce := 10, timer := Some 17\<rparr>) \<and>
   run_timer 32 16 ((data example_keys ! 0)\<lparr>timer_debounce := 10, timer := Some 17\<rparr>) =
     (data example_keys ! 0)\<lparr>timer_debounce := 10, timer := Some 17\<rparr> \<and>
   run_timer 32 17 ((data example_keys ! 0)\<lparr>timer_debounce := 10, timer := Some 17\<rparr>) =
     (data example_keys ! 0)\<lparr>timer_debounce := 10, work := True\<rparr> \<and>
   run_work janice all_high idle_statics
     ((data example_keys ! 0)\<lparr>timer_debounce := 10, work := True\<rparr>) =
     (idle_statics, (data example_keys ! 0)\<lparr>timer_debounce := 10\<rparr>,
      [Input_event EV_KEY KEY_VOLUMEUP 0, Input_sync]) \<and>
   gpio_keys_isr 32 example_gpio_to_irq example_msecs_to_jiffies 100 323 (data example_keys ! 0) =
     Inr ((data example_keys ! 0)\<lparr>work := True\<rparr>)"
  using debounce_collapses_burst [where d = 10 and msecs_to_jiffies = example_msecs_to_jiffies
      and bdata = "(data example_keys ! 0)\<lparr>timer_debounce := 10\<rparr>" and irq = example_gpio_to_irq
      and ts = "[4294967290, 4294967294, 4294967299, 4294967303]" and now = 4294967313
      and bits = 32 and brd = janice and levels = all_high and g = idle_statics, OF _ _ _ refl]
    debounce_collapses_burst [where d = 0 and msecs_to_jiffies = example_msecs_to_jiffies
      and bdata = "data example_keys ! 0" and irq = example_gpio_to_irq and j = 100
      and bits = 32, OF _ _ _ refl]
  by (simp add: session_defs example_defs input_consts run_work_def run_timer_def
      time_after_eq_def gpio_keys_timer_def schedule_work_def gpio_keys_isr_def mod_timer_def)

end
